theory Spec2Isabelle
  imports Main "HOL-Library.Sublist"
begin

section \<open>Strings of the runtime\<close>

text \<open>
  A JavaScript string is modelled as a \<^typ>\<open>string\<close>: one \<^typ>\<open>char\<close> per code unit
  (code units 0 to 255). The functions below are the library functions the two
  modules \<^verbatim>\<open>codex-core.ts\<close> and \<^verbatim>\<open>gemini-core.ts\<close> call on strings.
\<close>

text \<open>White space and line terminators, as \<^verbatim>\<open>String.prototype.trim\<close> and
  \<^verbatim>\<open>parseInt\<close> strip them: TAB, LF, VT, FF, CR, SP, NBSP.\<close>

definition is_ws :: "char \<Rightarrow> bool" where
  "is_ws c = (c \<in> set [CHR 0x09, CHR 0x0A, CHR 0x0B, CHR 0x0C, CHR 0x0D, CHR 0x20, CHR 0xA0])"

definition trim :: "string \<Rightarrow> string" where
  "trim s = rev (dropWhile is_ws (rev (dropWhile is_ws s)))"

text \<open>\<^verbatim>\<open>s.split('\n')\<close>: the pieces between line feeds; the empty string gives one
  empty piece.\<close>

fun split_lines :: "string \<Rightarrow> string list" where
  "split_lines [] = [[]]"
| "split_lines (c # cs) =
     (if c = CHR 0x0A then [] # split_lines cs
      else (case split_lines cs of l # ls \<Rightarrow> (c # l) # ls | [] \<Rightarrow> [[c]]))"

text \<open>\<^verbatim>\<open>xs.join(sep)\<close> on an array of strings.\<close>

fun join :: "string \<Rightarrow> string list \<Rightarrow> string" where
  "join sep [] = []"
| "join sep [x] = x"
| "join sep (x # y # ys) = x @ sep @ join sep (y # ys)"

text \<open>Decimal rendering of an integer, as a template literal renders a number that is
  an integer.\<close>

definition digit_char :: "nat \<Rightarrow> char" where
  "digit_char d = ''0123456789'' ! d"

fun digits_of :: "nat \<Rightarrow> string" where
  "digits_of n = (if n < 10 then [digit_char n] else digits_of (n div 10) @ [digit_char (n mod 10)])"

declare digits_of.simps [simp del]

definition show_int :: "int \<Rightarrow> string" where
  "show_int i = (if i < 0 then CHR ''-'' # digits_of (nat (- i)) else digits_of (nat i))"

section \<open>Timeout configuration\<close>

definition is_digit :: "char \<Rightarrow> bool" where
  "is_digit c = (c \<in> set ''0123456789'')"

definition digit_val :: "char \<Rightarrow> nat" where
  "digit_val c = of_char c - 48"

definition digits_val :: "string \<Rightarrow> nat" where
  "digits_val z = foldl (\<lambda>a c. 10 * a + digit_val c) 0 z"

text \<open>
  \<^verbatim>\<open>parseInt(s, 10)\<close>: leading white space is dropped, then an optional sign, then the
  longest run of decimal digits is read; no digit gives NaN (\<open>None\<close>). The radix is given,
  so no \<^verbatim>\<open>0x\<close> prefix is recognised. The result is kept as the exact integer: the runtime
  rounds an integer beyond \<open>2^53\<close> to a double (or to Infinity), which is monotone and
  leaves every value up to \<open>3600000\<close> as it is, so the clamp below gives the same number.
\<close>

definition parseInt10 :: "string \<Rightarrow> int option" where
  "parseInt10 s =
     (let t = dropWhile is_ws s;
          neg = (case t of c # _ \<Rightarrow> c = CHR ''-'' | [] \<Rightarrow> False);
          u = (case t of c # r \<Rightarrow> if c = CHR ''-'' \<or> c = CHR ''+'' then r else t | [] \<Rightarrow> []);
          z = takeWhile is_digit u
      in if z = [] then None
         else Some (if neg then - int (digits_val z) else int (digits_val z)))"

text \<open>\<^verbatim>\<open>a || b\<close> on an environment variable (unset is \<open>None\<close>; the empty string is falsy).\<close>

definition env_or :: "string option \<Rightarrow> string \<Rightarrow> string" where
  "env_or v d = (case v of None \<Rightarrow> d | Some s \<Rightarrow> if s = [] then d else s)"

text \<open>\<^verbatim>\<open>n || d\<close> on the result of \<^verbatim>\<open>parseInt\<close>: NaN and zero are falsy.\<close>

definition num_or :: "int option \<Rightarrow> int \<Rightarrow> int" where
  "num_or n d = (case n of None \<Rightarrow> d | Some i \<Rightarrow> if i = 0 then d else i)"

text \<open>
  \<^verbatim>\<open>Math.min(Math.max(5000, parseInt(process.env.OMC_CODEX_TIMEOUT || '3600000', 10) || 3600000), 3600000)\<close>;
  the argument is the value of the environment variable. \<^verbatim>\<open>GEMINI_TIMEOUT\<close> is the same
  expression over \<^verbatim>\<open>OMC_GEMINI_TIMEOUT\<close>.
\<close>

definition CODEX_TIMEOUT :: "string option \<Rightarrow> int" where
  "CODEX_TIMEOUT v = min (max 5000 (num_or (parseInt10 (env_or v ''3600000'')) 3600000)) 3600000"

definition GEMINI_TIMEOUT :: "string option \<Rightarrow> int" where
  "GEMINI_TIMEOUT v = min (max 5000 (num_or (parseInt10 (env_or v ''3600000'')) 3600000)) 3600000"

section \<open>Values of the runtime and the output decoder\<close>

text \<open>
  \<^verbatim>\<open>JSON.parse\<close> belongs to the runtime, not to the repository: the decoder takes it
  as a parameter \<open>parse\<close>, where \<open>None\<close> is the \<^verbatim>\<open>SyntaxError\<close> it throws. Its results
  are the values below. The decoder is duck-typed (\<^verbatim>\<open>event\<close> has type \<^verbatim>\<open>any\<close>), so the
  model keeps every shape a parsed line can have. A number is represented by the
  string that \<^verbatim>\<open>ToString\<close> gives for it (\<open>''0''\<close> for both zeros), which determines the
  two things the decoder does with a number: its truthiness and its text. An object is
  the list of its own properties, each name once; \<open>JUndefined\<close> is what reading an
  absent property gives.
\<close>

datatype jsval =
    JUndefined
  | JNull
  | JBool bool
  | JNum string
  | JStr string
  | JArr "jsval list"
  | JObj "(string \<times> jsval) list"

fun truthy :: "jsval \<Rightarrow> bool" where
  "truthy JUndefined = False"
| "truthy JNull = False"
| "truthy (JBool b) = b"
| "truthy (JNum n) = (n \<noteq> ''0'')"
| "truthy (JStr s) = (s \<noteq> [])"
| "truthy (JArr xs) = True"
| "truthy (JObj kvs) = True"

definition nullish :: "jsval \<Rightarrow> bool" where
  "nullish v = (v = JUndefined \<or> v = JNull)"

text \<open>\<^verbatim>\<open>v.k\<close> for a value that is neither null nor undefined, and \<open>k\<close> one of the names
  the decoder reads (\<^verbatim>\<open>type\<close>, \<^verbatim>\<open>content\<close>, \<^verbatim>\<open>text\<close>), which no prototype defines.\<close>

fun member_of :: "jsval \<Rightarrow> string \<Rightarrow> jsval" where
  "member_of (JObj kvs) k = (case map_of kvs k of Some v \<Rightarrow> v | None \<Rightarrow> JUndefined)"
| "member_of v k = JUndefined"

text \<open>
  \<^verbatim>\<open>ToString\<close>, \<open>None\<close> where it throws a \<^verbatim>\<open>TypeError\<close>: an array is its elements joined by
  commas (null and undefined elements as the empty string); an object is
  \<^verbatim>\<open>[object Object]\<close>, unless it has an own property \<^verbatim>\<open>toString\<close>, which, not being
  callable, leaves no way to a primitive.
\<close>

fun to_str :: "jsval \<Rightarrow> string option" where
  "to_str JUndefined = Some ''undefined''"
| "to_str JNull = Some ''null''"
| "to_str (JBool b) = Some (if b then ''true'' else ''false'')"
| "to_str (JNum n) = Some n"
| "to_str (JStr s) = Some s"
| "to_str (JArr xs) =
     map_option (join '','')
       (those (map (\<lambda>x. if x = JUndefined \<or> x = JNull then Some [] else to_str x) xs))"
| "to_str (JObj kvs) =
     (if ''toString'' \<in> fst ` set kvs then None else Some ''[object Object]'')"

text \<open>\<^verbatim>\<open>messages.join(sep)\<close> on an array of values.\<close>

definition join_vals :: "string \<Rightarrow> jsval list \<Rightarrow> string option" where
  "join_vals sep xs =
     map_option (join sep) (those (map (\<lambda>x. if nullish x then Some [] else to_str x) xs))"

text \<open>
  The loop over the parts of a \<^verbatim>\<open>message\<close> record. The result is the array \<^verbatim>\<open>messages\<close>
  after the loop and whether the loop threw (reading \<^verbatim>\<open>part.type\<close> of a null part):
  what was pushed before the throw stays pushed.
\<close>

fun collect_parts :: "jsval list \<Rightarrow> jsval list \<Rightarrow> jsval list \<times> bool" where
  "collect_parts [] messages = (messages, False)"
| "collect_parts (part # parts) messages =
     (if nullish part then (messages, True)
      else if member_of part ''type'' = JStr ''text'' \<and> truthy (member_of part ''text'')
           then collect_parts parts (messages @ [member_of part ''text''])
           else collect_parts parts messages)"

text \<open>The first \<^verbatim>\<open>if\<close> statement of the \<^verbatim>\<open>try\<close> block, on a record of type \<^verbatim>\<open>message\<close>: the
  array \<^verbatim>\<open>messages\<close> after it, and whether it threw.\<close>

definition collect_message :: "jsval \<Rightarrow> jsval list \<Rightarrow> jsval list \<times> bool" where
  "collect_message event messages =
     (if member_of event ''type'' = JStr ''message'' \<and> truthy (member_of event ''content'') then
        (case member_of event ''content'' of
           JStr s \<Rightarrow> (messages @ [JStr s], False)
         | JArr parts \<Rightarrow> collect_parts parts messages
         | _ \<Rightarrow> (messages, False))
      else (messages, False))"

text \<open>The body of the \<^verbatim>\<open>try\<close> block for one parsed line: reading \<^verbatim>\<open>event.type\<close> throws
  when the line is \<^verbatim>\<open>null\<close>; a throw ends the block, and the \<^verbatim>\<open>catch\<close> block is empty.\<close>

definition collect_event :: "jsval \<Rightarrow> jsval list \<Rightarrow> jsval list" where
  "collect_event event messages =
     (if nullish event then messages
      else if snd (collect_message event messages) then fst (collect_message event messages)
      else if member_of event ''type'' = JStr ''output_text'' \<and> truthy (member_of event ''text'')
           then fst (collect_message event messages) @ [member_of event ''text'']
           else fst (collect_message event messages))"

definition collect_line :: "(string \<Rightarrow> jsval option) \<Rightarrow> string \<Rightarrow> jsval list \<Rightarrow> jsval list" where
  "collect_line parse line messages =
     (case parse line of None \<Rightarrow> messages | Some event \<Rightarrow> collect_event event messages)"

definition output_lines :: "string \<Rightarrow> string list" where
  "output_lines output = filter (\<lambda>l. trim l \<noteq> []) (split_lines (trim output))"

definition collected :: "(string \<Rightarrow> jsval option) \<Rightarrow> string \<Rightarrow> jsval list" where
  "collected parse output = foldl (\<lambda>messages line. collect_line parse line messages) [] (output_lines output)"

text \<open>\<^verbatim>\<open>parseCodexOutput\<close>; \<open>None\<close> where \<^verbatim>\<open>messages.join\<close> throws.\<close>

definition parseCodexOutput :: "(string \<Rightarrow> jsval option) \<Rightarrow> string \<Rightarrow> string option" where
  "parseCodexOutput parse output =
     (case join_vals [CHR 0x0A] (collected parse output) of
        None \<Rightarrow> None
      | Some joined \<Rightarrow> Some (if joined = [] then output else joined))"

text \<open>A parser given by a finite table of lines, for evaluating the decoder on
  concrete output: the table lists what \<^verbatim>\<open>JSON.parse\<close> returns on the lines it names, every
  other line is taken as unparsable.\<close>

definition table_parse :: "(string \<times> jsval) list \<Rightarrow> string \<Rightarrow> jsval option" where
  "table_parse tbl line = map_of tbl line"

section \<open>Processes, jobs and effects\<close>

datatype provider = Codex | Gemini

definition provider_tag :: "provider \<Rightarrow> string" where
  "provider_tag p = (case p of Codex \<Rightarrow> ''codex'' | Gemini \<Rightarrow> ''gemini'')"

definition provider_name :: "provider \<Rightarrow> string" where
  "provider_name p = (case p of Codex \<Rightarrow> ''Codex'' | Gemini \<Rightarrow> ''Gemini'')"

text \<open>The environment variables the two modules read when they are loaded.\<close>

record penv =
  OMC_CODEX_DEFAULT_MODEL :: "string option"
  OMC_CODEX_TIMEOUT :: "string option"
  OMC_GEMINI_DEFAULT_MODEL :: "string option"
  OMC_GEMINI_TIMEOUT :: "string option"

definition TIMEOUT :: "provider \<Rightarrow> 'a penv_scheme \<Rightarrow> int" where
  "TIMEOUT p e = (case p of Codex \<Rightarrow> CODEX_TIMEOUT (OMC_CODEX_TIMEOUT e)
                          | Gemini \<Rightarrow> GEMINI_TIMEOUT (OMC_GEMINI_TIMEOUT e))"

definition DEFAULT_MODEL :: "provider \<Rightarrow> 'a penv_scheme \<Rightarrow> string" where
  "DEFAULT_MODEL p e = (case p of Codex \<Rightarrow> env_or (OMC_CODEX_DEFAULT_MODEL e) ''gpt-5.2''
                                | Gemini \<Rightarrow> env_or (OMC_GEMINI_DEFAULT_MODEL e) ''gemini-3-pro-preview'')"

datatype status = Spawned | Running | Completed | Failed | Timeout

record JobStatus =
  js_provider :: provider
  js_jobId :: string
  js_slug :: string
  js_status :: status
  js_pid :: nat
  js_promptFile :: string
  js_responseFile :: string
  js_model :: string
  js_agentRole :: string
  js_spawnedAt :: string
  js_completedAt :: "string option"
  js_error :: "string option"

record BackgroundJobMeta =
  jm_provider :: provider
  jm_jobId :: string
  jm_slug :: string
  jm_agentRole :: string
  jm_model :: string
  jm_promptFile :: string
  jm_responseFile :: string

text \<open>The argument of \<^verbatim>\<open>persistResponse\<close> and of \<^verbatim>\<open>persistPrompt\<close>.\<close>

record ResponseRecord =
  rr_provider :: provider
  rr_agentRole :: string
  rr_model :: string
  rr_promptId :: string
  rr_slug :: string
  rr_response :: string
  rr_usedFallback :: "bool option"
  rr_fallbackModel :: "string option"

record PromptRecord =
  pr_provider :: provider
  pr_agentRole :: string
  pr_model :: string
  pr_files :: "string list option"
  pr_prompt :: string
  pr_fullPrompt :: string

text \<open>
  Everything the code does to the world, in the order it does it: each function of the
  model returns the list of its effects. \<open>Resolve\<close> and \<open>Reject\<close> are the calls of the
  promise's two callbacks; \<open>Uncaught\<close> is an exception that leaves an event handler.
\<close>

datatype effect =
    SpawnChild string "string list" bool
  | Unref
  | SetTimeout int
  | ClearTimeout
  | StdinWrite string
  | StdinEnd
  | KillChild
  | KillGroup nat
  | Resolve string
  | Reject string
  | Uncaught
  | WriteJobStatus JobStatus
  | PersistResponse ResponseRecord
  | PersistPrompt PromptRecord
  | DetectCli provider
  | ResolveSystemPrompt string
  | ReadContextFile string

text \<open>The events the runtime delivers for one child process: data on the two output
  streams, \<^verbatim>\<open>close\<close> with the exit code (\<open>None\<close> is \<^verbatim>\<open>null\<close>: killed by a signal),
  \<^verbatim>\<open>error\<close> on the child, \<^verbatim>\<open>error\<close> on its standard input, and the timer.\<close>

datatype proc_event =
    StdoutData string
  | StderrData string
  | Close "int option"
  | ChildError string
  | StdinError string
  | TimerFired

text \<open>The variables the handlers share (\<^verbatim>\<open>settled\<close>, \<^verbatim>\<open>stdout\<close>, \<^verbatim>\<open>stderr\<close>) and the
  effects so far.\<close>

record proc_state =
  settled :: bool
  stdout :: string
  stderr :: string
  trace :: "effect list"

definition emit :: "effect list \<Rightarrow> proc_state \<Rightarrow> proc_state" where
  "emit es s = s\<lparr>trace := trace s @ es\<rparr>"

definition show_code :: "int option \<Rightarrow> string" where
  "show_code code = (case code of None \<Rightarrow> ''null'' | Some c \<Rightarrow> show_int c)"

definition codex_args :: "string \<Rightarrow> string list" where
  "codex_args model = [''exec'', ''-m'', model, ''--json'', ''--full-auto'']"

definition gemini_args :: "string option \<Rightarrow> string list" where
  "gemini_args model =
     (case model of None \<Rightarrow> [''--yolo'']
      | Some m \<Rightarrow> if m = [] then [''--yolo''] else [''--yolo'', ''--model'', m])"

definition spawn_args :: "provider \<Rightarrow> string \<Rightarrow> string list" where
  "spawn_args p model = (case p of Codex \<Rightarrow> codex_args model | Gemini \<Rightarrow> gemini_args (Some model))"

text \<open>What a successful close resolves with: \<^verbatim>\<open>parseCodexOutput(stdout)\<close> for Codex,
  \<^verbatim>\<open>stdout.trim()\<close> for Gemini.\<close>

definition decode :: "provider \<Rightarrow> (string \<Rightarrow> jsval option) \<Rightarrow> string \<Rightarrow> string option" where
  "decode p parse out = (case p of Codex \<Rightarrow> parseCodexOutput parse out | Gemini \<Rightarrow> Some (trim out))"

text \<open>The test of the close handlers: \<^verbatim>\<open>code === 0 || stdout.trim()\<close>.\<close>

definition close_ok :: "int option \<Rightarrow> string \<Rightarrow> bool" where
  "close_ok code out = (code = Some 0 \<or> trim out \<noteq> [])"

definition exit_message :: "provider \<Rightarrow> int option \<Rightarrow> string \<Rightarrow> string" where
  "exit_message p code err =
     provider_name p @ '' exited with code '' @ show_code code @ '': '' @
       (if err = [] then ''No output'' else err)"

definition timeout_message :: "provider \<Rightarrow> 'a penv_scheme \<Rightarrow> string" where
  "timeout_message p e = provider_name p @ '' timed out after '' @ show_int (TIMEOUT p e) @ ''ms''"

section \<open>The process executor\<close>

text \<open>
  What \<^verbatim>\<open>spawn\<close> does: it throws (an argument it refuses, such as a model name with a
  zero byte), or it returns a child, whose \<^verbatim>\<open>pid\<close> is undefined when the process could
  not be started.
\<close>

datatype spawn_outcome = SpawnThrows string | Child "nat option"

text \<open>
  \<^verbatim>\<open>executeCodex\<close> and \<^verbatim>\<open>executeGemini\<close> differ in the command line, the name in the
  messages, the timeout constant and the decoding of the output; the model has one
  definition with the provider as a parameter. \<open>execute_start\<close> is the body of the
  promise's executor, \<open>execute_on\<close> the handlers it registers. When \<^verbatim>\<open>spawn\<close> throws,
  the executor throws: the promise is rejected with that error, no timer is set, nothing
  is written to a child, and no handler is registered.
\<close>

definition execute_start :: "provider \<Rightarrow> 'a penv_scheme \<Rightarrow> spawn_outcome \<Rightarrow> string \<Rightarrow> string \<Rightarrow> proc_state" where
  "execute_start p e sp prompt model =
     (case sp of
        SpawnThrows msg \<Rightarrow>
          \<lparr>settled = False, stdout = [], stderr = [],
           trace = [SpawnChild (provider_tag p) (spawn_args p model) False, Reject msg]\<rparr>
      | Child pid \<Rightarrow>
          \<lparr>settled = False, stdout = [], stderr = [],
           trace = [SpawnChild (provider_tag p) (spawn_args p model) False, SetTimeout (TIMEOUT p e),
                    StdinWrite prompt, StdinEnd]\<rparr>)"

fun execute_on ::
  "provider \<Rightarrow> 'a penv_scheme \<Rightarrow> (string \<Rightarrow> jsval option) \<Rightarrow> proc_state \<Rightarrow> proc_event \<Rightarrow> proc_state" where
  "execute_on p e parse s TimerFired =
     (if \<not> settled s
      then emit [KillChild, Reject (timeout_message p e)] (s\<lparr>settled := True\<rparr>)
      else s)"
| "execute_on p e parse s (StdoutData d) = s\<lparr>stdout := stdout s @ d\<rparr>"
| "execute_on p e parse s (StderrData d) = s\<lparr>stderr := stderr s @ d\<rparr>"
| "execute_on p e parse s (Close code) =
     (if \<not> settled s
      then (if close_ok code (stdout s)
            then (case decode p parse (stdout s) of
                    Some r \<Rightarrow> emit [ClearTimeout, Resolve r] (s\<lparr>settled := True\<rparr>)
                  | None \<Rightarrow> emit [ClearTimeout, Uncaught] (s\<lparr>settled := True\<rparr>))
            else emit [ClearTimeout, Reject (exit_message p code (stderr s))] (s\<lparr>settled := True\<rparr>))
      else s)"
| "execute_on p e parse s (ChildError msg) =
     (if \<not> settled s
      then emit [ClearTimeout, KillChild,
                 Reject (''Failed to spawn '' @ provider_name p @ '' CLI: '' @ msg)] (s\<lparr>settled := True\<rparr>)
      else s)"
| "execute_on p e parse s (StdinError msg) =
     (if \<not> settled s
      then emit [ClearTimeout, KillChild, Reject (''Stdin write error: '' @ msg)] (s\<lparr>settled := True\<rparr>)
      else s)"

text \<open>One execution: the executor's body, then the events of the child in the order
  the runtime delivers them. When \<^verbatim>\<open>spawn\<close> threw there is no child and no event.\<close>

definition execute ::
  "provider \<Rightarrow> 'a penv_scheme \<Rightarrow> (string \<Rightarrow> jsval option) \<Rightarrow> spawn_outcome \<Rightarrow> string \<Rightarrow> string
     \<Rightarrow> proc_event list \<Rightarrow> proc_state" where
  "execute p e parse sp prompt model events =
     (case sp of
        SpawnThrows msg \<Rightarrow> execute_start p e sp prompt model
      | Child pid \<Rightarrow> foldl (execute_on p e parse) (execute_start p e sp prompt model) events)"

definition executeCodex ::
  "'a penv_scheme \<Rightarrow> (string \<Rightarrow> jsval option) \<Rightarrow> spawn_outcome \<Rightarrow> string \<Rightarrow> string
     \<Rightarrow> proc_event list \<Rightarrow> proc_state" where
  "executeCodex = execute Codex"

definition executeGemini ::
  "'a penv_scheme \<Rightarrow> (string \<Rightarrow> jsval option) \<Rightarrow> spawn_outcome \<Rightarrow> string \<Rightarrow> string
     \<Rightarrow> proc_event list \<Rightarrow> proc_state" where
  "executeGemini = execute Gemini"

text \<open>The calls of the promise's callbacks among some effects, and the state of the
  promise they leave: the first call decides, no call leaves it pending.\<close>

fun is_settlement :: "effect \<Rightarrow> bool" where
  "is_settlement (Resolve r) = True"
| "is_settlement (Reject m) = True"
| "is_settlement x = False"

datatype outcome = Pending | Resolved string | Rejected string

fun promise_of :: "effect list \<Rightarrow> outcome" where
  "promise_of [] = Pending"
| "promise_of (Resolve r # es) = Resolved r"
| "promise_of (Reject m # es) = Rejected m"
| "promise_of (x # es) = promise_of es"

section \<open>The background job supervisor\<close>

text \<open>
  \<^verbatim>\<open>executeCodexBackground\<close> and \<^verbatim>\<open>executeGeminiBackground\<close>, again as one definition.
  When \<^verbatim>\<open>spawn\<close> throws, the \<^verbatim>\<open>catch\<close> block of the function returns the error; when the
  child has no \<^verbatim>\<open>pid\<close>, the function returns an error before it registers any
  handler. Writes to the child's standard input and to the status store
  report their failures through events, not by throwing. \<^verbatim>\<open>new Date().toISOString()\<close> is
  the time stamp that comes with the call or with the event.
\<close>

datatype bg_result = BgPid nat | BgError string

definition initialStatus :: "provider \<Rightarrow> nat \<Rightarrow> string \<Rightarrow> BackgroundJobMeta \<Rightarrow> string \<Rightarrow> JobStatus" where
  "initialStatus p pid model jobMeta now =
     \<lparr>js_provider = p, js_jobId = jm_jobId jobMeta, js_slug = jm_slug jobMeta, js_status = Spawned,
      js_pid = pid, js_promptFile = jm_promptFile jobMeta, js_responseFile = jm_responseFile jobMeta,
      js_model = model, js_agentRole = jm_agentRole jobMeta, js_spawnedAt = now,
      js_completedAt = None, js_error = None\<rparr>"

definition terminal_status :: "JobStatus \<Rightarrow> status \<Rightarrow> string \<Rightarrow> string option \<Rightarrow> JobStatus" where
  "terminal_status initial st now err = initial\<lparr>js_status := st, js_completedAt := Some now, js_error := err\<rparr>"

definition background_start ::
  "provider \<Rightarrow> 'a penv_scheme \<Rightarrow> spawn_outcome \<Rightarrow> string \<Rightarrow> string \<Rightarrow> string \<Rightarrow> BackgroundJobMeta
     \<Rightarrow> bg_result \<times> proc_state" where
  "background_start p e sp now fullPrompt model jobMeta =
     (let s0 = \<lparr>settled = False, stdout = [], stderr = [],
                trace = [SpawnChild (provider_tag p) (spawn_args p model) True]\<rparr>
      in case sp of
           SpawnThrows msg \<Rightarrow> (BgError (''Failed to start background execution: '' @ msg), s0)
         | Child None \<Rightarrow> (BgError ''Failed to get process ID'', s0)
         | Child (Some pid) \<Rightarrow>
             if pid = 0 then (BgError ''Failed to get process ID'', s0)
             else (BgPid pid,
                   emit [Unref, WriteJobStatus (initialStatus p pid model jobMeta now),
                         SetTimeout (TIMEOUT p e), StdinWrite fullPrompt, StdinEnd,
                         WriteJobStatus ((initialStatus p pid model jobMeta now)\<lparr>js_status := Running\<rparr>)] s0))"

fun background_on ::
  "provider \<Rightarrow> 'a penv_scheme \<Rightarrow> (string \<Rightarrow> jsval option) \<Rightarrow> bool \<Rightarrow> string \<Rightarrow> BackgroundJobMeta \<Rightarrow> JobStatus
     \<Rightarrow> proc_state \<Rightarrow> string \<times> proc_event \<Rightarrow> proc_state" where
  "background_on p e parse win32 model jobMeta initial s (now, TimerFired) =
     (if \<not> settled s
      then emit [if \<not> win32 then KillGroup (js_pid initial) else KillChild,
                 WriteJobStatus (terminal_status initial Timeout now (Some (timeout_message p e)))]
             (s\<lparr>settled := True\<rparr>)
      else s)"
| "background_on p e parse win32 model jobMeta initial s (now, StdoutData d) = s\<lparr>stdout := stdout s @ d\<rparr>"
| "background_on p e parse win32 model jobMeta initial s (now, StderrData d) = s\<lparr>stderr := stderr s @ d\<rparr>"
| "background_on p e parse win32 model jobMeta initial s (now, StdinError msg) =
     (if settled s then s
      else emit [ClearTimeout,
                 WriteJobStatus (terminal_status initial Failed now (Some (''Stdin write error: '' @ msg)))]
             (s\<lparr>settled := True\<rparr>))"
| "background_on p e parse win32 model jobMeta initial s (now, Close code) =
     (if settled s then s
      else if close_ok code (stdout s)
      then (case decode p parse (stdout s) of
              None \<Rightarrow> emit [ClearTimeout, Uncaught] (s\<lparr>settled := True\<rparr>)
            | Some response \<Rightarrow>
                emit [ClearTimeout,
                      PersistResponse
                        \<lparr>rr_provider = p, rr_agentRole = jm_agentRole jobMeta, rr_model = model,
                         rr_promptId = jm_jobId jobMeta, rr_slug = jm_slug jobMeta, rr_response = response,
                         rr_usedFallback = None, rr_fallbackModel = None\<rparr>,
                      WriteJobStatus (terminal_status initial Completed now None)]
                  (s\<lparr>settled := True\<rparr>))
      else emit [ClearTimeout,
                 WriteJobStatus (terminal_status initial Failed now (Some (exit_message p code (stderr s))))]
             (s\<lparr>settled := True\<rparr>))"
| "background_on p e parse win32 model jobMeta initial s (now, ChildError msg) =
     (if settled s then s
      else emit [ClearTimeout,
                 WriteJobStatus (terminal_status initial Failed now
                    (Some (''Failed to spawn '' @ provider_name p @ '' CLI: '' @ msg)))]
             (s\<lparr>settled := True\<rparr>))"

text \<open>
  The events of a child for which the function registered no handler (it had no
  \<^verbatim>\<open>pid\<close>): an \<^verbatim>\<open>error\<close> event without a listener is thrown by the emitter, an exception
  that nothing catches; the other events pass unnoticed, and no timer was set.
\<close>

fun unhandled_on :: "proc_state \<Rightarrow> string \<times> proc_event \<Rightarrow> proc_state" where
  "unhandled_on s (now, ChildError msg) = emit [Uncaught] s"
| "unhandled_on s (now, StdinError msg) = emit [Uncaught] s"
| "unhandled_on s (now, ev) = s"

text \<open>One background job: the function itself, which returns at once, and then the
  events of the child, each with its time stamp. When \<^verbatim>\<open>spawn\<close> threw there is no
  child and no event.\<close>

definition executeBackground ::
  "provider \<Rightarrow> 'a penv_scheme \<Rightarrow> (string \<Rightarrow> jsval option) \<Rightarrow> bool \<Rightarrow> spawn_outcome \<Rightarrow> string \<Rightarrow> string \<Rightarrow> string
     \<Rightarrow> BackgroundJobMeta \<Rightarrow> (string \<times> proc_event) list \<Rightarrow> bg_result \<times> proc_state" where
  "executeBackground p e parse win32 sp now fullPrompt model jobMeta events =
     (case background_start p e sp now fullPrompt model jobMeta of
        (BgPid pid, s0) \<Rightarrow>
          (BgPid pid,
           foldl (background_on p e parse win32 model jobMeta (initialStatus p pid model jobMeta now)) s0 events)
      | (BgError msg, s0) \<Rightarrow>
          (case sp of
             SpawnThrows m \<Rightarrow> (BgError msg, s0)
           | Child pid \<Rightarrow> (BgError msg, foldl unhandled_on s0 events)))"

definition executeCodexBackground ::
  "'a penv_scheme \<Rightarrow> (string \<Rightarrow> jsval option) \<Rightarrow> bool \<Rightarrow> spawn_outcome \<Rightarrow> string \<Rightarrow> string \<Rightarrow> string
     \<Rightarrow> BackgroundJobMeta \<Rightarrow> (string \<times> proc_event) list \<Rightarrow> bg_result \<times> proc_state" where
  "executeCodexBackground = executeBackground Codex"

definition executeGeminiBackground ::
  "'a penv_scheme \<Rightarrow> (string \<Rightarrow> jsval option) \<Rightarrow> bool \<Rightarrow> spawn_outcome \<Rightarrow> string \<Rightarrow> string \<Rightarrow> string
     \<Rightarrow> BackgroundJobMeta \<Rightarrow> (string \<times> proc_event) list \<Rightarrow> bg_result \<times> proc_state" where
  "executeGeminiBackground = executeBackground Gemini"

text \<open>The records written to the job status store, in order: status records and
  response records; the statuses among them; the terminal ones.\<close>

fun is_store_write :: "effect \<Rightarrow> bool" where
  "is_store_write (WriteJobStatus j) = True"
| "is_store_write (PersistResponse r) = True"
| "is_store_write x = False"

fun statuses :: "effect list \<Rightarrow> status list" where
  "statuses [] = []"
| "statuses (WriteJobStatus j # es) = js_status j # statuses es"
| "statuses (x # es) = statuses es"

definition terminal :: "status \<Rightarrow> bool" where
  "terminal st = (st = Completed \<or> st = Failed \<or> st = Timeout)"

fun is_terminal_write :: "effect \<Rightarrow> bool" where
  "is_terminal_write (WriteJobStatus j) = terminal (js_status j)"
| "is_terminal_write x = False"

fun is_spawn :: "effect \<Rightarrow> bool" where
  "is_spawn (SpawnChild c a d) = True"
| "is_spawn x = False"

section \<open>The fallback chain\<close>

definition GEMINI_MODEL_FALLBACKS :: "string list" where
  "GEMINI_MODEL_FALLBACKS =
     [''gemini-3-pro-preview'', ''gemini-3-flash-preview'', ''gemini-2.5-pro'', ''gemini-2.5-flash'']"

text \<open>\<^verbatim>\<open>xs.indexOf(x)\<close>: the first index of \<open>x\<close>, \<open>None\<close> for \<open>-1\<close>.\<close>

fun indexOf :: "'a list \<Rightarrow> 'a \<Rightarrow> nat option" where
  "indexOf [] x = None"
| "indexOf (y # ys) x = (if y = x then Some 0 else map_option Suc (indexOf ys x))"

text \<open>
  \<^verbatim>\<open>fallbackIndex >= 0 ? GEMINI_MODEL_FALLBACKS.slice(fallbackIndex) : [requestedModel, ...GEMINI_MODEL_FALLBACKS]\<close>,
  with the canonical list as a parameter.
\<close>

definition modelsToTry :: "string list \<Rightarrow> string \<Rightarrow> string list" where
  "modelsToTry fallbacks requestedModel =
     (case indexOf fallbacks requestedModel of
        Some fallbackIndex \<Rightarrow> drop fallbackIndex fallbacks
      | None \<Rightarrow> requestedModel # fallbacks)"

section \<open>The request handlers\<close>

text \<open>
  The collaborators of the handlers that are not part of the two modules (CLI detection,
  system prompts, prompt assembly, persistence, the file system behind
  \<^verbatim>\<open>validateAndReadFile\<close>), the runtime's JSON parser, and what the spawned children do:
  \<open>sync_spawn k\<close> is what \<^verbatim>\<open>spawn\<close> does in the \<open>k\<close>-th synchronous execution of a request
  and \<open>child_events k\<close> are the events of its child, \<open>bg_spawn\<close> is what \<^verbatim>\<open>spawn\<close> does for a background job, \<open>platform_win32\<close>
  whether \<^verbatim>\<open>process.platform\<close> is \<^verbatim>\<open>win32\<close>, \<open>current_time\<close> the time stamp of the request.
\<close>

record detection =
  det_available :: bool
  det_error :: string
  det_installHint :: string

record PromptResult =
  pres_id :: string
  pres_slug :: string
  pres_filePath :: string

record world = penv +
  detectCli :: "provider \<Rightarrow> detection"
  resolveSystemPrompt :: "string \<Rightarrow> string option"
  validateAndReadFile :: "string \<Rightarrow> string"
  buildPromptWithSystemContext :: "string \<Rightarrow> string option \<Rightarrow> string option \<Rightarrow> string"
  persistPrompt :: "PromptRecord \<Rightarrow> PromptResult option"
  getExpectedResponsePath :: "provider \<Rightarrow> string \<Rightarrow> string \<Rightarrow> string"
  getStatusFilePath :: "provider \<Rightarrow> string \<Rightarrow> string \<Rightarrow> string"
  JSON_parse :: "string \<Rightarrow> jsval option"
  sync_spawn :: "nat \<Rightarrow> spawn_outcome"
  child_events :: "nat \<Rightarrow> proc_event list"
  bg_spawn :: spawn_outcome
  platform_win32 :: bool
  current_time :: string

text \<open>The arguments of a request (\<^verbatim>\<open>context_files\<close> for Codex, \<^verbatim>\<open>files\<close> for Gemini);
  an absent argument is \<open>None\<close>.\<close>

record AskArgs =
  arg_prompt :: string
  arg_agent_role :: "string option"
  arg_model :: "string option"
  arg_files :: "string list option"
  arg_background :: bool

record ToolResult =
  res_text :: string
  isError :: bool

definition VALID_ROLES :: "provider \<Rightarrow> string list" where
  "VALID_ROLES p =
     (case p of
        Codex \<Rightarrow> [''architect'', ''planner'', ''critic'', ''analyst'', ''code-reviewer'',
                  ''security-reviewer'', ''tdd-guide'']
      | Gemini \<Rightarrow> [''designer'', ''writer'', ''vision''])"

definition MAX_CONTEXT_FILES :: nat where
  "MAX_CONTEXT_FILES = 20"

definition NL :: string where
  "NL = [CHR 0x0A]"

definition SEP :: string where
  "SEP = NL @ NL @ ''---'' @ NL @ NL"

text \<open>\<^verbatim>\<open>!agent_role || !VALID_ROLES.includes(agent_role)\<close>, negated.\<close>

definition role_ok :: "provider \<Rightarrow> string option \<Rightarrow> bool" where
  "role_ok p agent_role =
     (case agent_role of None \<Rightarrow> False | Some r \<Rightarrow> r \<noteq> [] \<and> r \<in> set (VALID_ROLES p))"

definition show_role :: "string option \<Rightarrow> string" where
  "show_role agent_role = (case agent_role of None \<Rightarrow> ''undefined'' | Some r \<Rightarrow> r)"

definition error_result :: "string \<Rightarrow> ToolResult" where
  "error_result t = \<lparr>res_text = t, isError = True\<rparr>"

definition ok_result :: "string \<Rightarrow> ToolResult" where
  "ok_result t = \<lparr>res_text = t, isError = False\<rparr>"

text \<open>What the handler has computed when it reaches the branch between background and
  synchronous execution.\<close>

record prepared =
  pp_role :: string
  pp_model :: string
  pp_files :: "string list option"
  pp_fullPrompt :: string
  pp_promptResult :: "PromptResult option"
  pp_expected :: "string option"
  pp_trace :: "effect list"

text \<open>\<^verbatim>\<open>files && files.length > 0\<close>, and the files of the request.\<close>

definition non_empty :: "string list option \<Rightarrow> bool" where
  "non_empty files = (case files of None \<Rightarrow> False | Some fs \<Rightarrow> fs \<noteq> [])"

definition files_of :: "string list option \<Rightarrow> string list" where
  "files_of files = (case files of None \<Rightarrow> [] | Some fs \<Rightarrow> fs)"

text \<open>The handler up to and including the persistence of the prompt: an early return
  (\<open>Inl\<close>, with the effects so far) or the values the rest of the handler uses.\<close>

definition prepare :: "provider \<Rightarrow> 'a world_scheme \<Rightarrow> AskArgs \<Rightarrow> (ToolResult \<times> effect list) + prepared" where
  "prepare p w args =
     (let model = (case arg_model args of None \<Rightarrow> DEFAULT_MODEL p w | Some m \<Rightarrow> m)
      in if \<not> role_ok p (arg_agent_role args)
         then Inl (error_result (''Invalid agent_role: \"'' @ show_role (arg_agent_role args) @ ''\". ''
                      @ provider_name p @ '' requires one of: '' @ join '', '' (VALID_ROLES p)), [])
         else if \<not> det_available (detectCli w p)
         then Inl (error_result (provider_name p @ '' CLI is not available: '' @ det_error (detectCli w p)
                      @ NL @ NL @ det_installHint (detectCli w p)), [DetectCli p])
         else if non_empty (arg_files args) \<and> length (files_of (arg_files args)) > MAX_CONTEXT_FILES
         then Inl (error_result (''Too many context files (max '' @ digits_of MAX_CONTEXT_FILES @ '', got ''
                      @ digits_of (length (files_of (arg_files args))) @ '')''),
                   [DetectCli p, ResolveSystemPrompt (show_role (arg_agent_role args))])
         else
           let role = show_role (arg_agent_role args);
               files = files_of (arg_files args);
               fileContext = (if non_empty (arg_files args)
                              then Some (join (NL @ NL) (map (validateAndReadFile w) files)) else None);
               fullPrompt = buildPromptWithSystemContext w (arg_prompt args) fileContext (resolveSystemPrompt w role);
               rec = \<lparr>pr_provider = p, pr_agentRole = role, pr_model = model, pr_files = arg_files args,
                         pr_prompt = arg_prompt args, pr_fullPrompt = fullPrompt\<rparr>;
               promptResult = persistPrompt w rec
           in Inr \<lparr>pp_role = role, pp_model = model, pp_files = arg_files args, pp_fullPrompt = fullPrompt,
                   pp_promptResult = promptResult,
                   pp_expected = map_option (\<lambda>r. getExpectedResponsePath w p (pres_slug r) (pres_id r)) promptResult,
                   pp_trace = [DetectCli p, ResolveSystemPrompt role] @ map ReadContextFile files
                              @ [PersistPrompt rec]\<rparr>)"

text \<open>The parameter visibility block: the lines that are not \<^verbatim>\<open>null\<close>, joined.\<close>

definition paramLines :: "prepared \<Rightarrow> string" where
  "paramLines pp =
     join NL
       ([''**Agent Role:** '' @ pp_role pp]
        @ (if non_empty (pp_files pp) then [''**Files:** '' @ join '', '' (files_of (pp_files pp))] else [])
        @ (case pp_promptResult pp of Some r \<Rightarrow> [''**Prompt File:** '' @ pres_filePath r] | None \<Rightarrow> [])
        @ (case pp_expected pp of
             Some path \<Rightarrow> if path \<noteq> [] then [''**Response File:** '' @ path] else []
           | None \<Rightarrow> []))"

text \<open>
  The background branch. Codex dispatches the requested model; Gemini builds the
  fallback chain and dispatches \<^verbatim>\<open>modelsToTry[0]\<close> (the chain is never empty, see
  \<open>modelsToTry_not_Nil\<close> below). The handler returns when \<^verbatim>\<open>executeCodexBackground\<close> or
  \<^verbatim>\<open>executeGeminiBackground\<close> has returned.
\<close>

definition background_text :: "provider \<Rightarrow> string list \<Rightarrow> 'a world_scheme \<Rightarrow> prepared \<Rightarrow> PromptResult \<Rightarrow> nat \<Rightarrow> string" where
  "background_text p fallbacks w pp r pid =
     join NL
       ([''**Mode:** Background (non-blocking)'',
         ''**Job ID:** '' @ pres_id r,
         ''**Agent Role:** '' @ pp_role pp]
        @ (case p of
             Codex \<Rightarrow> [''**Model:** '' @ pp_model pp]
           | Gemini \<Rightarrow> [''**Model (attempting):** '' @ hd (modelsToTry fallbacks (pp_model pp)),
                        ''**Fallback chain:** '' @ join '' -> '' (modelsToTry fallbacks (pp_model pp))])
        @ [''**PID:** '' @ digits_of pid,
           ''**Prompt File:** '' @ pres_filePath r,
           ''**Response File:** '' @ getExpectedResponsePath w p (pres_slug r) (pres_id r),
           ''**Status File:** '' @ getStatusFilePath w p (pres_slug r) (pres_id r),
           []]
        @ (case p of
             Codex \<Rightarrow> [''Job dispatched. Check response file existence or read status file for completion.'']
           | Gemini \<Rightarrow> [''Job dispatched. Background mode tries first model only.'',
                        ''If it fails, check status file and retry with next model.'']))"

definition background_model :: "provider \<Rightarrow> string list \<Rightarrow> string \<Rightarrow> string" where
  "background_model p fallbacks model =
     (case p of Codex \<Rightarrow> model | Gemini \<Rightarrow> hd (modelsToTry fallbacks model))"

definition dispatch_background ::
  "provider \<Rightarrow> string list \<Rightarrow> 'a world_scheme \<Rightarrow> prepared \<Rightarrow> ToolResult option \<times> effect list" where
  "dispatch_background p fallbacks w pp =
     (case pp_promptResult pp of
        None \<Rightarrow> (Some (error_result ''Failed to persist prompt for background execution''), pp_trace pp)
      | Some r \<Rightarrow>
         (let model0 = background_model p fallbacks (pp_model pp);
              jobMeta = \<lparr>jm_provider = p, jm_jobId = pres_id r, jm_slug = pres_slug r,
                         jm_agentRole = pp_role pp, jm_model = model0, jm_promptFile = pres_filePath r,
                         jm_responseFile = getExpectedResponsePath w p (pres_slug r) (pres_id r)\<rparr>;
              started = background_start p w (bg_spawn w) (current_time w) (pp_fullPrompt pp) model0 jobMeta
          in (case fst started of
                BgError msg \<Rightarrow>
                  (Some (error_result (''Failed to spawn background job: '' @ msg)),
                   pp_trace pp @ trace (snd started))
              | BgPid pid \<Rightarrow>
                  (Some (ok_result (background_text p fallbacks w pp r pid)),
                   pp_trace pp @ trace (snd started)))))"

text \<open>
  The synchronous branch of \<^verbatim>\<open>handleAskCodex\<close>: one execution, awaited. A promise that
  never settles leaves the handler waiting: no result (\<open>None\<close>).
\<close>

definition response_record :: "provider \<Rightarrow> prepared \<Rightarrow> PromptResult \<Rightarrow> string \<Rightarrow> string \<Rightarrow> bool option \<Rightarrow> ResponseRecord" where
  "response_record p pp r model response usedFallback =
     \<lparr>rr_provider = p, rr_agentRole = pp_role pp, rr_model = model, rr_promptId = pres_id r,
      rr_slug = pres_slug r, rr_response = response, rr_usedFallback = usedFallback,
      rr_fallbackModel = (if usedFallback = Some True then Some model else None)\<rparr>"

definition persist_response :: "provider \<Rightarrow> prepared \<Rightarrow> string \<Rightarrow> string \<Rightarrow> bool option \<Rightarrow> effect list" where
  "persist_response p pp model response usedFallback =
     (case pp_promptResult pp of
        None \<Rightarrow> []
      | Some r \<Rightarrow> [PersistResponse (response_record p pp r model response usedFallback)])"

definition sync_codex :: "'a world_scheme \<Rightarrow> prepared \<Rightarrow> ToolResult option \<times> effect list" where
  "sync_codex w pp =
     (let st = executeCodex w (JSON_parse w) (sync_spawn w 0) (pp_fullPrompt pp) (pp_model pp) (child_events w 0)
      in case promise_of (trace st) of
           Pending \<Rightarrow> (None, pp_trace pp @ trace st)
         | Resolved response \<Rightarrow>
             (Some (ok_result (paramLines pp @ SEP @ response)),
              pp_trace pp @ trace st @ persist_response Codex pp (pp_model pp) response None)
         | Rejected msg \<Rightarrow>
             (Some (error_result (paramLines pp @ SEP @ ''Codex CLI error: '' @ msg)),
              pp_trace pp @ trace st))"

text \<open>
  The fallback loop of \<^verbatim>\<open>handleAskGemini\<close>: \<open>k\<close> counts the executions of the request,
  \<open>errors\<close> is the array of that name, \<open>tr\<close> the effects so far.
\<close>

fun fallback_loop ::
  "'a world_scheme \<Rightarrow> prepared \<Rightarrow> nat \<Rightarrow> string list \<Rightarrow> string list \<Rightarrow> effect list
     \<Rightarrow> ToolResult option \<times> effect list" where
  "fallback_loop w pp k [] errors tr =
     (Some (error_result (paramLines pp @ SEP @ ''Gemini CLI error: all models failed.'' @ NL @ join NL errors)),
      tr)"
| "fallback_loop w pp k (tryModel # rest) errors tr =
     (let st = executeGemini w (JSON_parse w) (sync_spawn w k) (pp_fullPrompt pp) tryModel (child_events w k)
      in case promise_of (trace st) of
           Pending \<Rightarrow> (None, tr @ trace st)
         | Resolved response \<Rightarrow>
             (let usedFallback = (tryModel \<noteq> pp_model pp);
                  fallbackNote = (if usedFallback
                                  then ''[Fallback: used '' @ tryModel @ '' instead of '' @ pp_model pp @ '']'' @ NL @ NL
                                  else [])
              in (Some (ok_result (paramLines pp @ SEP @ fallbackNote @ response)),
                  tr @ trace st @ persist_response Gemini pp tryModel response (Some usedFallback)))
         | Rejected msg \<Rightarrow>
             fallback_loop w pp (Suc k) rest (errors @ [tryModel @ '': '' @ msg]) (tr @ trace st))"

definition sync_gemini :: "string list \<Rightarrow> 'a world_scheme \<Rightarrow> prepared \<Rightarrow> ToolResult option \<times> effect list" where
  "sync_gemini fallbacks w pp = fallback_loop w pp 0 (modelsToTry fallbacks (pp_model pp)) [] (pp_trace pp)"

text \<open>The two handlers: the result (\<open>None\<close> while the handler waits for ever) and the
  effects. \<^verbatim>\<open>handleAskGemini\<close> is stated for any canonical list and instantiated with
  \<^verbatim>\<open>GEMINI_MODEL_FALLBACKS\<close>.\<close>

definition handleAsk :: "provider \<Rightarrow> string list \<Rightarrow> 'a world_scheme \<Rightarrow> AskArgs \<Rightarrow> ToolResult option \<times> effect list" where
  "handleAsk p fallbacks w args =
     (case prepare p w args of
        Inl (r, tr) \<Rightarrow> (Some r, tr)
      | Inr pp \<Rightarrow>
          if arg_background args then dispatch_background p fallbacks w pp
          else (case p of Codex \<Rightarrow> sync_codex w pp | Gemini \<Rightarrow> sync_gemini fallbacks w pp))"

definition handleAskCodex :: "'a world_scheme \<Rightarrow> AskArgs \<Rightarrow> ToolResult option \<times> effect list" where
  "handleAskCodex w args = handleAsk Codex [] w args"

definition handleAskGemini :: "'a world_scheme \<Rightarrow> AskArgs \<Rightarrow> ToolResult option \<times> effect list" where
  "handleAskGemini w args = handleAsk Gemini GEMINI_MODEL_FALLBACKS w args"

section \<open>Predicates on events, effects and states\<close>

text \<open>The events whose handlers settle the operation: the timer, \<^verbatim>\<open>close\<close>, and the two
  \<^verbatim>\<open>error\<close> events. The data events only extend the buffers.\<close>

fun settling :: "proc_event \<Rightarrow> bool" where
  "settling (StdoutData d) = False"
| "settling (StderrData d) = False"
| "settling ev = True"

text \<open>The invariant of the synchronous executor: no callback has been called while
  \<^verbatim>\<open>settled\<close> is false, and at most one afterwards.\<close>

definition settle_inv :: "proc_state \<Rightarrow> bool" where
  "settle_inv s = (if settled s then length (filter is_settlement (trace s)) \<le> 1
                   else filter is_settlement (trace s) = [])"

text \<open>No record is written to the store after a terminal status record.\<close>

fun quiet_after_terminal :: "effect list \<Rightarrow> bool" where
  "quiet_after_terminal [] = True"
| "quiet_after_terminal (x # es) =
     (if is_terminal_write x then filter is_store_write es = [] else quiet_after_terminal es)"

text \<open>The job ids of the records written to the store: \<^verbatim>\<open>jobId\<close> of a status record,
  \<^verbatim>\<open>promptId\<close> of a response record.\<close>

fun store_ids :: "effect list \<Rightarrow> string list" where
  "store_ids [] = []"
| "store_ids (WriteJobStatus j # es) = js_jobId j # store_ids es"
| "store_ids (PersistResponse r # es) = rr_promptId r # store_ids es"
| "store_ids (x # es) = store_ids es"

text \<open>The invariant of a background job with id \<open>jid\<close>, once it has been dispatched.\<close>

definition bg_inv :: "string \<Rightarrow> proc_state \<Rightarrow> bool" where
  "bg_inv jid s =
     (take 2 (statuses (trace s)) = [Spawned, Running]
      \<and> length (statuses (trace s)) \<le> 3
      \<and> list_all terminal (drop 2 (statuses (trace s)))
      \<and> (\<not> settled s \<longrightarrow> length (statuses (trace s)) = 2)
      \<and> (settled s \<and> Uncaught \<notin> set (trace s) \<longrightarrow> length (statuses (trace s)) = 3)
      \<and> quiet_after_terminal (trace s)
      \<and> set (store_ids (trace s)) \<subseteq> {jid})"

text \<open>A concrete environment and a concrete job, for evaluating the model.\<close>

definition env0 :: penv where
  "env0 = \<lparr>OMC_CODEX_DEFAULT_MODEL = None, OMC_CODEX_TIMEOUT = None,
            OMC_GEMINI_DEFAULT_MODEL = None, OMC_GEMINI_TIMEOUT = Some ''60000''\<rparr>"

definition meta0 :: BackgroundJobMeta where
  "meta0 = \<lparr>jm_provider = Codex, jm_jobId = ''job-1'', jm_slug = ''review'', jm_agentRole = ''architect'',
             jm_model = ''gpt-5.2'', jm_promptFile = ''prompt.md'', jm_responseFile = ''response.md''\<rparr>"



text \<open>
  Two lines of output with the values \<^verbatim>\<open>JSON.parse\<close> returns for them, and a parser that
  knows these two lines: the record of the specification's scenario, and a record whose
  \<^verbatim>\<open>text\<close> is an empty array.
\<close>

definition ok_line :: string where
  "ok_line = ''{\"type\":\"output_text\",\"text\":\"ok\"}''"

definition ok_event :: jsval where
  "ok_event = JObj [(''type'', JStr ''output_text''), (''text'', JStr ''ok'')]"

definition empty_array_line :: string where
  "empty_array_line = ''{\"type\":\"output_text\",\"text\":[]}''"

definition empty_array_event :: jsval where
  "empty_array_event = JObj [(''type'', JStr ''output_text''), (''text'', JArr [])]"

definition sample_parse :: "string \<Rightarrow> jsval option" where
  "sample_parse = table_parse [(ok_line, ok_event), (empty_array_line, empty_array_event)]"

text \<open>A line of Codex output whose text is an object with a property \<^verbatim>\<open>toString\<close>, the
  value \<^verbatim>\<open>JSON.parse\<close> returns on it, and a parser that reads it so. Then the background
  job of a child that prints this line and exits with code 0, followed by any later
  events.\<close>

definition tostring_line :: string where
  "tostring_line = ''{\"type\":\"output_text\",\"text\":{\"toString\":1}}''"

definition tostring_event :: jsval where
  "tostring_event = JObj [(''type'', JStr ''output_text''), (''text'', JObj [(''toString'', JNum ''1'')])]"

definition tostring_parse :: "string \<Rightarrow> jsval option" where
  "tostring_parse = table_parse [(tostring_line, tostring_event)]"

definition stuck_job :: "(string \<times> proc_event) list \<Rightarrow> bg_result \<times> proc_state" where
  "stuck_job later =
     executeCodexBackground env0 tostring_parse False (Child (Some 4242)) ''t0'' ''q'' ''gpt-5.2'' meta0
       ([(''t1'', StdoutData tostring_line), (''t2'', Close (Some 0))] @ later)"

text \<open>A process that has not settled, whose output so far is a space and a line feed,
  with a message on its standard error.\<close>

definition blank_state :: proc_state where
  "blank_state = \<lparr>settled = False, stdout = [CHR 0x20, CHR 0x0A], stderr = ''boom'', trace = []\<rparr>"

text \<open>The outcome of the \<open>k\<close>-th execution of a synchronous Gemini request, for model
  \<open>tryModel\<close>: the state of the promise \<^verbatim>\<open>executeGemini\<close> returns.\<close>

definition attempt :: "'a world_scheme \<Rightarrow> prepared \<Rightarrow> nat \<Rightarrow> string \<Rightarrow> outcome" where
  "attempt w pp k tryModel =
     promise_of (trace (executeGemini w (JSON_parse w) (sync_spawn w k) (pp_fullPrompt pp) tryModel
                          (child_events w k)))"

text \<open>The models the loop executes, from the \<open>k\<close>-th execution on: each model of the list
  up to and including the first whose execution does not reject; and the entries the loop
  pushes to \<^verbatim>\<open>errors\<close> on the way.\<close>

fun attempted :: "'a world_scheme \<Rightarrow> prepared \<Rightarrow> nat \<Rightarrow> string list \<Rightarrow> string list" where
  "attempted w pp k [] = []"
| "attempted w pp k (tryModel # rest) =
     tryModel # (case attempt w pp k tryModel of Rejected msg \<Rightarrow> attempted w pp (Suc k) rest | _ \<Rightarrow> [])"

fun failures :: "'a world_scheme \<Rightarrow> prepared \<Rightarrow> nat \<Rightarrow> string list \<Rightarrow> string list" where
  "failures w pp k [] = []"
| "failures w pp k (tryModel # rest) =
     (case attempt w pp k tryModel of
        Rejected msg \<Rightarrow> (tryModel @ '': '' @ msg) # failures w pp (Suc k) rest
      | _ \<Rightarrow> [])"

fun is_persist_response :: "effect \<Rightarrow> bool" where
  "is_persist_response (PersistResponse r) = True"
| "is_persist_response x = False"

text \<open>The spawn of a child process for a model: detached for a background job.\<close>

definition spawn_of :: "provider \<Rightarrow> bool \<Rightarrow> string \<Rightarrow> effect" where
  "spawn_of p detached model = SpawnChild (provider_tag p) (spawn_args p model) detached"

text \<open>
  A concrete world and request: the CLI is installed, the prompt is persisted, every
  child exits with code 1 without output; the request asks Gemini, as a designer, for the
  third model of the canonical list. \<open>prepared0\<close> is what the handler has computed for it
  when it reaches the branch.
\<close>

definition world0 :: world where
  "world0 =
     \<lparr>OMC_CODEX_DEFAULT_MODEL = None, OMC_CODEX_TIMEOUT = None,
      OMC_GEMINI_DEFAULT_MODEL = None, OMC_GEMINI_TIMEOUT = Some ''60000'',
      detectCli = (\<lambda>p. \<lparr>det_available = True, det_error = [], det_installHint = []\<rparr>),
      resolveSystemPrompt = (\<lambda>role. None),
      validateAndReadFile = (\<lambda>f. ''--- File: '' @ f @ '' ---''),
      buildPromptWithSystemContext = (\<lambda>prompt fileContext systemPrompt. prompt),
      persistPrompt = (\<lambda>r. Some \<lparr>pres_id = ''job-1'', pres_slug = ''review'', pres_filePath = ''prompt.md''\<rparr>),
      getExpectedResponsePath = (\<lambda>p slug i. ''response.md''),
      getStatusFilePath = (\<lambda>p slug i. ''status.json''),
      JSON_parse = sample_parse,
      sync_spawn = (\<lambda>k. Child (Some 4242)),
      child_events = (\<lambda>k. [Close (Some 1)]),
      bg_spawn = Child (Some 4242),
      platform_win32 = False,
      current_time = ''t0''\<rparr>"

definition args0 :: AskArgs where
  "args0 = \<lparr>arg_prompt = ''hi'', arg_agent_role = Some ''designer'', arg_model = Some ''gemini-2.5-pro'',
            arg_files = None, arg_background = False\<rparr>"

definition prepared0 :: prepared where
  "prepared0 =
     \<lparr>pp_role = ''designer'', pp_model = ''gemini-2.5-pro'', pp_files = None, pp_fullPrompt = ''hi'',
      pp_promptResult = Some \<lparr>pres_id = ''job-1'', pres_slug = ''review'', pres_filePath = ''prompt.md''\<rparr>,
      pp_expected = Some ''response.md'',
      pp_trace = [DetectCli Gemini, ResolveSystemPrompt ''designer'',
                  PersistPrompt \<lparr>pr_provider = Gemini, pr_agentRole = ''designer'', pr_model = ''gemini-2.5-pro'',
                                 pr_files = None, pr_prompt = ''hi'', pr_fullPrompt = ''hi''\<rparr>]\<rparr>"

section \<open>Properties\<close>

subsection \<open>The timeout constants\<close>

lemma parseInt10_default: "parseInt10 ''3600000'' = Some 3600000"
  by (simp add: parseInt10_def is_ws_def is_digit_def digits_val_def digit_val_def)

lemma num_or_range: "5000 \<le> min (max 5000 (num_or n 3600000)) 3600000 \<and> min (max 5000 (num_or n 3600000)) 3600000 \<le> 3600000"
  by simp

lemma env_or_unparsable: "parseInt10 s = None \<Longrightarrow> num_or (parseInt10 (env_or (Some s) ''3600000'')) 3600000 = 3600000"
  by (cases "s = []") (simp_all add: env_or_def num_or_def parseInt10_default)

lemma env_or_unset: "num_or (parseInt10 (env_or None ''3600000'')) 3600000 = 3600000"
  by (simp add: env_or_def num_or_def parseInt10_default)

text \<open>
  C9. Whatever the timeout environment variable holds (\<open>v\<close>: unset, or any string), the
  timeout constant of either provider lies between 5000 and 3600000 milliseconds; it is
  exactly 3600000 when the variable is unset and when \<^verbatim>\<open>parseInt\<close> finds no number in it.
\<close>

theorem timeout_clamped:
  "5000 \<le> CODEX_TIMEOUT v \<and> CODEX_TIMEOUT v \<le> 3600000
   \<and> 5000 \<le> GEMINI_TIMEOUT v \<and> GEMINI_TIMEOUT v \<le> 3600000
   \<and> CODEX_TIMEOUT None = 3600000 \<and> GEMINI_TIMEOUT None = 3600000
   \<and> (parseInt10 s = None \<longrightarrow> CODEX_TIMEOUT (Some s) = 3600000 \<and> GEMINI_TIMEOUT (Some s) = 3600000)"
  unfolding CODEX_TIMEOUT_def GEMINI_TIMEOUT_def
  using num_or_range [of "parseInt10 (env_or v ''3600000'')"] env_or_unparsable [of s] env_or_unset
  by simp

theorem timeout_clamped_witness:
  "parseInt10 ''one hour'' = None
   \<and> CODEX_TIMEOUT (Some ''one hour'') = 3600000 \<and> GEMINI_TIMEOUT (Some ''one hour'') = 3600000
   \<and> 5000 \<le> CODEX_TIMEOUT (Some ''-20'') \<and> GEMINI_TIMEOUT (Some ''99999999'') \<le> 3600000"
proof -
  have unparsable: "parseInt10 ''one hour'' = None"
    by (simp add: parseInt10_def is_ws_def is_digit_def)
  from timeout_clamped [of "Some ''-20''" "''one hour''"] timeout_clamped [of "Some ''99999999''" "''one hour''"] unparsable
  show ?thesis by simp
qed

text \<open>The clamp at work: a negative value and a small one give the lower bound, zero is
  falsy and gives the default, a number followed by a unit is read up to the unit.\<close>

lemma timeout_examples:
  "CODEX_TIMEOUT (Some ''-20'') = 5000"
  "CODEX_TIMEOUT (Some ''0'') = 3600000"
  "CODEX_TIMEOUT (Some ''  60000ms'') = 60000"
  "GEMINI_TIMEOUT (Some ''99999999'') = 3600000"
  by (simp_all add: CODEX_TIMEOUT_def GEMINI_TIMEOUT_def env_or_def num_or_def parseInt10_def
        is_ws_def is_digit_def digits_val_def digit_val_def)

subsection \<open>Settlement\<close>

lemma emit_simps [simp]:
  "settled (emit es s) = settled s" "stdout (emit es s) = stdout s" "stderr (emit es s) = stderr s"
  "trace (emit es s) = trace s @ es"
  by (simp_all add: emit_def)

lemma execute_on_settled:
  "settled s \<Longrightarrow> settled (execute_on p e parse s ev) \<and> trace (execute_on p e parse s ev) = trace s"
  by (cases ev) simp_all

lemma execute_on_noop: "settled s \<Longrightarrow> settling ev \<Longrightarrow> execute_on p e parse s ev = s"
  by (cases ev) simp_all

lemma execute_run_settled:
  "settled s \<Longrightarrow> settled (foldl (execute_on p e parse) s evs) \<and> trace (foldl (execute_on p e parse) s evs) = trace s"
proof (induction evs arbitrary: s)
  case Nil
  then show ?case by simp
next
  case (Cons ev evs)
  from Cons.prems have "settled (execute_on p e parse s ev)" "trace (execute_on p e parse s ev) = trace s"
    using execute_on_settled by blast+
  with Cons.IH [of "execute_on p e parse s ev"] show ?case by simp
qed

lemma settle_inv_step: "settle_inv s \<Longrightarrow> settle_inv (execute_on p e parse s ev)"
  by (cases ev) (auto simp: settle_inv_def split: option.splits)

lemma settle_inv_run: "settle_inv s \<Longrightarrow> settle_inv (foldl (execute_on p e parse) s evs)"
  by (induction evs arbitrary: s) (simp_all add: settle_inv_step)

lemma settle_inv_start: "settle_inv (execute_start p e (Child pid) prompt model)"
  by (simp add: settle_inv_def execute_start_def)

lemma execute_throw:
  "execute p e parse (SpawnThrows msg) prompt model events
   = \<lparr>settled = False, stdout = [], stderr = [],
      trace = [SpawnChild (provider_tag p) (spawn_args p model) False, Reject msg]\<rparr>"
  by (simp add: execute_def execute_start_def)

lemma settle_inv_le: "settle_inv s \<Longrightarrow> length (filter is_settlement (trace s)) \<le> 1"
  by (simp add: settle_inv_def split: if_splits)

lemma execute_once: "length (filter is_settlement (trace (execute p e parse sp prompt model events))) \<le> 1"
proof (cases sp)
  case (SpawnThrows msg)
  then show ?thesis by (simp add: execute_throw)
next
  case (Child pid)
  then show ?thesis
    using settle_inv_le [OF settle_inv_run [OF settle_inv_start], of p e parse p e pid prompt model events]
    by (simp add: execute_def)
qed

lemma execute_later_noop:
  "settled (execute p e parse sp prompt model evs1) \<Longrightarrow>
   trace (execute p e parse sp prompt model (evs1 @ evs2)) = trace (execute p e parse sp prompt model evs1)"
  by (cases sp) (simp_all add: execute_def execute_run_settled)

lemma background_on_settled:
  "settled s \<Longrightarrow> settled (background_on p e parse w m jm ini s tev) \<and> trace (background_on p e parse w m jm ini s tev) = trace s"
  by (cases tev, cases "snd tev") simp_all

lemma background_on_noop: "settled s \<Longrightarrow> settling ev \<Longrightarrow> background_on p e parse w m jm ini s (t, ev) = s"
  by (cases ev) simp_all

lemma background_run_settled:
  "settled s \<Longrightarrow> settled (foldl (background_on p e parse w m jm ini) s evs)
     \<and> trace (foldl (background_on p e parse w m jm ini) s evs) = trace s"
proof (induction evs arbitrary: s)
  case Nil
  then show ?case by simp
next
  case (Cons ev evs)
  from Cons.prems have "settled (background_on p e parse w m jm ini s ev)"
     "trace (background_on p e parse w m jm ini s ev) = trace s"
    using background_on_settled by blast+
  with Cons.IH [of "background_on p e parse w m jm ini s ev"] show ?case by simp
qed

lemma statuses_append [simp]: "statuses (xs @ ys) = statuses xs @ statuses ys"
  by (induction xs rule: statuses.induct) simp_all

lemma store_ids_append [simp]: "store_ids (xs @ ys) = store_ids xs @ store_ids ys"
  by (induction xs rule: store_ids.induct) simp_all

lemma terminal_write_statuses:
  "length (filter is_terminal_write tr) = length (filter terminal (statuses tr))"
  by (induction tr rule: statuses.induct) simp_all

lemma quiet_append:
  "filter terminal (statuses tr) = [] \<Longrightarrow> quiet_after_terminal (tr @ es) = quiet_after_terminal es"
  by (induction tr rule: statuses.induct) (simp_all split: if_splits)

lemma two_nonterminal:
  "take 2 ss = [Spawned, Running] \<Longrightarrow> length ss = 2 \<Longrightarrow> filter terminal ss = []"
  by (cases ss; cases "tl ss") (auto simp: terminal_def)

lemma terminal_simps [simp]:
  "\<not> terminal Spawned" "\<not> terminal Running" "terminal Completed" "terminal Failed" "terminal Timeout"
  by (simp_all add: terminal_def)

lemma bg_inv_step:
  assumes "bg_inv (jm_jobId jm) s" "js_jobId ini = jm_jobId jm"
  shows "bg_inv (jm_jobId jm) (background_on p e parse w m jm ini s tev)"
proof (cases "settled s")
  case True
  with assms background_on_settled [of s p e parse w m jm ini tev] show ?thesis
    by (simp add: bg_inv_def)
next
  case False
  with assms have two: "take 2 (statuses (trace s)) = [Spawned, Running]" "length (statuses (trace s)) = 2"
    by (simp_all add: bg_inv_def)
  then have nt: "filter terminal (statuses (trace s)) = []" by (rule two_nonterminal)
  from two have st: "statuses (trace s) = [Spawned, Running]" by simp
  from assms have ids: "set (store_ids (trace s)) \<subseteq> {jm_jobId jm}" by (simp add: bg_inv_def)
  from assms have q: "quiet_after_terminal (trace s)" by (simp add: bg_inv_def)
  obtain t ev where tev: "tev = (t, ev)" by (cases tev)
  show ?thesis
    using False st ids q assms(2) unfolding tev
    by (cases ev) (auto simp: bg_inv_def quiet_append [OF nt] terminal_status_def split: option.splits)
qed

lemma bg_inv_run:
  "bg_inv (jm_jobId jm) s \<Longrightarrow> js_jobId ini = jm_jobId jm \<Longrightarrow>
   bg_inv (jm_jobId jm) (foldl (background_on p e parse w m jm ini) s evs)"
  by (induction evs arbitrary: s) (simp_all add: bg_inv_step)

lemma bg_inv_start:
  "background_start p e sp t fullPrompt m jm = (BgPid pid, s0) \<Longrightarrow> bg_inv (jm_jobId jm) s0 \<and> \<not> settled s0"
  by (auto simp: background_start_def bg_inv_def initialStatus_def Let_def
        split: spawn_outcome.splits option.splits if_splits)

lemma bg_error_start:
  "background_start p e sp t fullPrompt m jm = (BgError msg, s0) \<Longrightarrow>
   trace s0 = [SpawnChild (provider_tag p) (spawn_args p m) True] \<and> \<not> settled s0"
  by (auto simp: background_start_def Let_def split: spawn_outcome.splits option.splits if_splits)

lemma unhandled_run: "\<exists>n. foldl unhandled_on s tevs = emit (replicate n Uncaught) s"
proof (induction tevs arbitrary: s)
  case Nil
  show ?case by (rule exI [of _ 0]) (simp add: emit_def)
next
  case (Cons tev tevs)
  obtain t ev where tev: "tev = (t, ev)" by (cases tev)
  from Cons.IH [of "unhandled_on s tev"] obtain n
    where n: "foldl unhandled_on (unhandled_on s tev) tevs = emit (replicate n Uncaught) (unhandled_on s tev)"
    by blast
  have "unhandled_on s tev = s \<or> unhandled_on s tev = emit [Uncaught] s"
    unfolding tev by (cases ev) simp_all
  then show ?case
  proof
    assume "unhandled_on s tev = s"
    with n show ?thesis by auto
  next
    assume "unhandled_on s tev = emit [Uncaught] s"
    with n have "foldl unhandled_on s (tev # tevs) = emit (replicate (Suc n) Uncaught) s"
      by (simp add: emit_def)
    then show ?thesis by blast
  qed
qed

lemma uncaught_only:
  "statuses (replicate n Uncaught) = []" "store_ids (replicate n Uncaught) = []"
  by (induction n) simp_all

lemma terminal_write_is_store: "is_terminal_write x \<Longrightarrow> is_store_write x"
  by (cases x) simp_all

lemma quiet_decompose:
  "quiet_after_terminal (tr1 @ x # tr2) \<Longrightarrow> is_terminal_write x \<Longrightarrow> filter is_store_write tr2 = []"
proof (induction tr1)
  case Nil
  then show ?case by simp
next
  case (Cons a tr1)
  show ?case
  proof (cases "is_terminal_write a")
    case True
    with Cons.prems terminal_write_is_store [of x] show ?thesis by simp
  next
    case False
    with Cons show ?thesis by simp
  qed
qed

lemma bg_inv_prefix:
  assumes "bg_inv jid s"
  shows "\<exists>st. terminal st \<and> prefix (statuses (trace s)) [Spawned, Running, st]"
proof -
  let ?ss = "statuses (trace s)"
  from assms have a: "take 2 ?ss = [Spawned, Running]" "length ?ss \<le> 3" "list_all terminal (drop 2 ?ss)"
    by (simp_all add: bg_inv_def)
  show ?thesis
  proof (cases "length ?ss = 2")
    case True
    with a(1) have "?ss = [Spawned, Running]" by simp
    then show ?thesis by (auto intro: exI [of _ Failed])
  next
    case False
    from a(1) have "length (take 2 ?ss) = 2" by simp
    with False a(2) have len: "length ?ss = 3" by simp
    then obtain x y z where xyz: "?ss = [x, y, z]"
      by (auto simp: length_Suc_conv numeral_3_eq_3)
    with a show ?thesis by auto
  qed
qed

lemma run_settled_iff:
  "settled (foldl (execute_on p e parse) s evs) = (settled s \<or> list_ex settling evs)"
proof (induction evs arbitrary: s)
  case Nil
  then show ?case by simp
next
  case (Cons ev evs)
  have "settled (execute_on p e parse s ev) = (settled s \<or> settling ev)"
    by (cases ev) (simp_all split: option.splits)
  with Cons.IH [of "execute_on p e parse s ev"] show ?case by auto
qed

lemma bg_run_settled_iff:
  "settled (foldl (background_on p e parse w m jm ini) s evs) = (settled s \<or> list_ex (\<lambda>tev. settling (snd tev)) evs)"
proof (induction evs arbitrary: s)
  case Nil
  then show ?case by simp
next
  case (Cons tev evs)
  obtain t ev where tev: "tev = (t, ev)" by (cases tev)
  have "settled (background_on p e parse w m jm ini s tev) = (settled s \<or> settling ev)"
    unfolding tev by (cases ev) (simp_all split: option.splits)
  with Cons.IH [of "background_on p e parse w m jm ini s tev"] tev show ?case by auto
qed

lemma bg_error_run:
  assumes "background_start p e sp t fullPrompt m jm = (BgError msg, s0)"
  shows "fst (executeBackground p e parse w sp t fullPrompt m jm tevents) = BgError msg
    \<and> \<not> settled (snd (executeBackground p e parse w sp t fullPrompt m jm tevents))
    \<and> (\<exists>n. trace (snd (executeBackground p e parse w sp t fullPrompt m jm tevents))
             = SpawnChild (provider_tag p) (spawn_args p m) True # replicate n Uncaught)"
proof -
  from bg_error_start [OF assms]
  have s0: "trace s0 = [SpawnChild (provider_tag p) (spawn_args p m) True]" "\<not> settled s0"
    by simp_all
  show ?thesis
  proof (cases sp)
    case (SpawnThrows x)
    with assms have "executeBackground p e parse w sp t fullPrompt m jm tevents = (BgError msg, s0)"
      by (simp add: executeBackground_def)
    moreover have "trace s0 = SpawnChild (provider_tag p) (spawn_args p m) True # replicate 0 Uncaught"
      using s0 by simp
    ultimately show ?thesis using s0(2) by (simp del: replicate_0)
  next
    case (Child pid)
    obtain n where n: "foldl unhandled_on s0 tevents = emit (replicate n Uncaught) s0"
      using unhandled_run by blast
    from Child assms n
    have "executeBackground p e parse w sp t fullPrompt m jm tevents
          = (BgError msg, emit (replicate n Uncaught) s0)"
      by (simp add: executeBackground_def)
    with s0 show ?thesis by simp
  qed
qed

lemma bg_once:
  "length (filter is_terminal_write (trace (snd (executeBackground p e parse w sp t fullPrompt m jm tevents)))) \<le> 1"
proof (cases "background_start p e sp t fullPrompt m jm")
  case (Pair r s0)
  show ?thesis
  proof (cases r)
    case (BgPid pid)
    with Pair have start: "bg_inv (jm_jobId jm) s0" using bg_inv_start by blast
    have "js_jobId (initialStatus p pid m jm t) = jm_jobId jm" by (simp add: initialStatus_def)
    with start have inv: "bg_inv (jm_jobId jm) (foldl (background_on p e parse w m jm (initialStatus p pid m jm t)) s0 tevents)"
      by (rule bg_inv_run)
    let ?s = "foldl (background_on p e parse w m jm (initialStatus p pid m jm t)) s0 tevents"
    from inv have "take 2 (statuses (trace ?s)) = [Spawned, Running]" "length (statuses (trace ?s)) \<le> 3"
      by (simp_all add: bg_inv_def)
    then have "length (filter terminal (statuses (trace ?s))) \<le> 1"
      by (cases "statuses (trace ?s)"; cases "tl (statuses (trace ?s))")
         (auto intro: order_trans [OF length_filter_le])
    with Pair BgPid show ?thesis
      by (simp add: executeBackground_def terminal_write_statuses)
  next
    case (BgError msg)
    with Pair bg_error_run [of p e sp t fullPrompt m jm msg s0 parse w tevents] show ?thesis
      by auto
  qed
qed

lemma bg_later_noop:
  "settled (snd (executeBackground p e parse w sp t fullPrompt m jm tevents)) \<Longrightarrow>
   trace (snd (executeBackground p e parse w sp t fullPrompt m jm (tevents @ tlater)))
   = trace (snd (executeBackground p e parse w sp t fullPrompt m jm tevents))"
proof (cases "background_start p e sp t fullPrompt m jm")
  case (Pair r s0)
  assume st: "settled (snd (executeBackground p e parse w sp t fullPrompt m jm tevents))"
  show ?thesis
  proof (cases r)
    case (BgPid pid)
    with Pair st show ?thesis
      by (simp add: executeBackground_def background_run_settled)
  next
    case (BgError msg)
    with Pair st bg_error_run [of p e sp t fullPrompt m jm msg s0 parse w tevents] show ?thesis
      by simp
  qed
qed

text \<open>
  C1. In a synchronous execution and in a background job, at most one settlement takes
  effect. A handler of the timer, of \<^verbatim>\<open>close\<close> or of one of the two \<^verbatim>\<open>error\<close> events that
  runs when \<^verbatim>\<open>settled\<close> is set leaves the state as it is, and no event at all adds an
  effect then; \<^verbatim>\<open>settled\<close> is set exactly when such an event has been handled. For every
  outcome of \<^verbatim>\<open>spawn\<close> and every sequence of events, the promise's callbacks are called at
  most once in a synchronous execution and at most one terminal status record is written
  for a background job; the events after the settlement add nothing to the effects. When
  \<^verbatim>\<open>spawn\<close> throws in a synchronous execution, the one settlement is the rejection with
  that error.
\<close>

theorem settles_at_most_once:
  "(settled s \<and> settling ev \<longrightarrow> execute_on p e parse s ev = s)
   \<and> (settled s \<longrightarrow> trace (execute_on p e parse s ev) = trace s)
   \<and> settled (execute p e parse (Child pid) prompt model events) = list_ex settling events
   \<and> length (filter is_settlement (trace (execute p e parse sp prompt model events))) \<le> 1
   \<and> (settled (execute p e parse sp prompt model events) \<longrightarrow>
        trace (execute p e parse sp prompt model (events @ later))
        = trace (execute p e parse sp prompt model events))
   \<and> trace (execute p e parse (SpawnThrows msg) prompt model events)
       = [SpawnChild (provider_tag p) (spawn_args p model) False, Reject msg]
   \<and> (settled s \<and> settling ev \<longrightarrow> background_on p e parse w32 model jobMeta initial s (t, ev) = s)
   \<and> (settled s \<longrightarrow> trace (background_on p e parse w32 model jobMeta initial s (t, ev)) = trace s)
   \<and> length (filter is_terminal_write
        (trace (snd (executeBackground p e parse w32 sp t fullPrompt model jobMeta tevents)))) \<le> 1
   \<and> (settled (snd (executeBackground p e parse w32 sp t fullPrompt model jobMeta tevents)) \<longrightarrow>
        trace (snd (executeBackground p e parse w32 sp t fullPrompt model jobMeta (tevents @ tlater)))
        = trace (snd (executeBackground p e parse w32 sp t fullPrompt model jobMeta tevents)))"
proof -
  have "settled (execute p e parse (Child pid) prompt model events) = list_ex settling events"
    by (simp add: execute_def run_settled_iff execute_start_def)
  moreover have "trace (execute p e parse (SpawnThrows msg) prompt model events)
       = [SpawnChild (provider_tag p) (spawn_args p model) False, Reject msg]"
    by (simp add: execute_throw)
  ultimately show ?thesis
    using execute_on_noop [of s ev p e parse] execute_on_settled [of s p e parse ev]
      execute_once [of p e parse sp prompt model events]
      execute_later_noop [of p e parse sp prompt model events later]
      background_on_noop [of s ev p e parse w32 model jobMeta initial t]
      background_on_settled [of s p e parse w32 model jobMeta initial "(t, ev)"]
      bg_once [of p e parse w32 sp t fullPrompt model jobMeta tevents]
      bg_later_noop [of p e parse w32 sp t fullPrompt model jobMeta tevents tlater]
    by blast
qed

theorem settles_at_most_once_witness:
  "settled (execute Codex env0 (\<lambda>l. None) (Child (Some 4242)) ''q'' ''gpt-5.2'' [TimerFired])
   \<and> trace (execute Codex env0 (\<lambda>l. None) (Child (Some 4242)) ''q'' ''gpt-5.2'' ([TimerFired] @ [Close (Some 0), StdinError ''EPIPE'']))
       = trace (execute Codex env0 (\<lambda>l. None) (Child (Some 4242)) ''q'' ''gpt-5.2'' [TimerFired])
   \<and> filter is_settlement (trace (execute Codex env0 (\<lambda>l. None) (Child (Some 4242)) ''q'' ''gpt-5.2'' [TimerFired, Close (Some 0)]))
       = [Reject ''Codex timed out after 3600000ms'']
   \<and> settled (snd (executeBackground Gemini env0 (\<lambda>l. None) False (Child (Some 4242)) ''t0'' ''q''
         ''gemini-2.5-pro'' meta0 [(''t1'', TimerFired)]))
   \<and> trace (snd (executeBackground Gemini env0 (\<lambda>l. None) False (Child (Some 4242)) ''t0'' ''q''
         ''gemini-2.5-pro'' meta0 ([(''t1'', TimerFired)] @ [(''t2'', Close (Some 0))])))
       = trace (snd (executeBackground Gemini env0 (\<lambda>l. None) False (Child (Some 4242)) ''t0'' ''q''
         ''gemini-2.5-pro'' meta0 [(''t1'', TimerFired)]))"
proof -
  have a: "settled (execute Codex env0 (\<lambda>l. None) (Child (Some 4242)) ''q'' ''gpt-5.2'' [TimerFired])"
    by (simp add: execute_def execute_start_def)
  have b: "settled (snd (executeBackground Gemini env0 (\<lambda>l. None) False (Child (Some 4242)) ''t0'' ''q''
         ''gemini-2.5-pro'' meta0 [(''t1'', TimerFired)]))"
    by (simp add: executeBackground_def background_start_def)
  have c: "filter is_settlement (trace (execute Codex env0 (\<lambda>l. None) (Child (Some 4242)) ''q'' ''gpt-5.2'' [TimerFired, Close (Some 0)]))
         = [Reject ''Codex timed out after 3600000ms'']"
    by (simp add: execute_def execute_start_def timeout_message_def provider_name_def TIMEOUT_def env0_def
      CODEX_TIMEOUT_def env_or_def num_or_def parseInt10_default show_int_def digits_of.simps digit_char_def)
  from a b c
    settles_at_most_once [where p = Codex and e = env0 and parse = "\<lambda>l. None" and prompt = "''q''"
      and sp = "Child (Some 4242)" and model = "''gpt-5.2''" and events = "[TimerFired]"
      and later = "[Close (Some 0), StdinError ''EPIPE'']"]
    settles_at_most_once [where p = Gemini and e = env0 and parse = "\<lambda>l. None" and ?w32.0 = False
      and sp = "Child (Some 4242)" and t = "''t0''" and fullPrompt = "''q''" and model = "''gemini-2.5-pro''"
      and jobMeta = meta0 and tevents = "[(''t1'', TimerFired)]" and tlater = "[(''t2'', Close (Some 0))]"]
  show ?thesis by blast
qed

subsection \<open>The status records of a background job\<close>

lemma bg_run_inv:
  assumes "executeBackground p e parse w32 sp t fullPrompt m jm tevents = (BgPid pid, s)"
  shows "bg_inv (jm_jobId jm) s"
proof -
  obtain r s0 where start: "background_start p e sp t fullPrompt m jm = (r, s0)"
    by (cases "background_start p e sp t fullPrompt m jm")
  with assms have r: "r = BgPid pid"
    by (cases r) (simp_all add: executeBackground_def split: spawn_outcome.splits)
  with start assms have s: "s = foldl (background_on p e parse w32 m jm (initialStatus p pid m jm t)) s0 tevents"
    by (simp add: executeBackground_def)
  from start r have "bg_inv (jm_jobId jm) s0" using bg_inv_start by blast
  moreover have "js_jobId (initialStatus p pid m jm t) = jm_jobId jm" by (simp add: initialStatus_def)
  ultimately show ?thesis unfolding s by (rule bg_inv_run)
qed

lemma bg_run_error:
  assumes "executeBackground p e parse w32 sp t fullPrompt m jm tevents = (BgError msg, s)"
  shows "(\<exists>n. trace s = SpawnChild (provider_tag p) (spawn_args p m) True # replicate n Uncaught)
         \<and> \<not> settled s"
proof -
  obtain r s0 where start: "background_start p e sp t fullPrompt m jm = (r, s0)"
    by (cases "background_start p e sp t fullPrompt m jm")
  with assms have "r = BgError msg"
    by (cases r) (simp_all add: executeBackground_def split: spawn_outcome.splits)
  with start bg_error_run [of p e sp t fullPrompt m jm msg s0 parse w32 tevents] assms
  show ?thesis by simp
qed

lemma bg_start_statuses:
  "fst (background_start p e sp t fullPrompt m jm) = BgPid pid \<Longrightarrow>
   statuses (trace (snd (background_start p e sp t fullPrompt m jm))) = [Spawned, Running]"
  by (auto simp: background_start_def initialStatus_def Let_def
        split: spawn_outcome.splits option.splits if_splits)

lemma bg_fst: "fst (executeBackground p e parse w32 sp t fullPrompt m jm tevents) = fst (background_start p e sp t fullPrompt m jm)"
  by (cases "background_start p e sp t fullPrompt m jm"; cases "fst (background_start p e sp t fullPrompt m jm)")
     (simp_all add: executeBackground_def split: spawn_outcome.splits)

text \<open>
  What holds of the status records of every background job, whatever \<^verbatim>\<open>spawn\<close> does and
  whatever the events, with result \<open>r\<close> and final state \<open>s\<close>: the status records written
  are a prefix of spawned, running, and one terminal status. When the function returns
  a process id, spawned and running have both been written before it returns, that is
  before any event is handled, and the job is settled exactly when one of the events is
  a settling one; when it returns an error, nothing is written to the store. At most one
  terminal record is written, none while the job is not settled, and one once it is
  settled without an exception leaving the close handler. Nothing is written to the
  store after the terminal record, and every record written carries the id of the job.
\<close>

theorem status_sequence:
  assumes run: "executeBackground p e parse w32 sp t fullPrompt model jobMeta tevents = (r, s)"
  shows "(\<exists>st. terminal st \<and> prefix (statuses (trace s)) [Spawned, Running, st])
    \<and> (\<forall>pid. r = BgPid pid \<longrightarrow>
          statuses (trace (snd (background_start p e sp t fullPrompt model jobMeta))) = [Spawned, Running]
          \<and> take 2 (statuses (trace s)) = [Spawned, Running]
          \<and> settled s = list_ex (\<lambda>tev. settling (snd tev)) tevents)
    \<and> (\<forall>msg. r = BgError msg \<longrightarrow> filter is_store_write (trace s) = [])
    \<and> length (filter is_terminal_write (trace s)) \<le> 1
    \<and> (\<forall>tr1 x tr2. trace s = tr1 @ x # tr2 \<and> is_terminal_write x \<longrightarrow> filter is_store_write tr2 = [])
    \<and> set (store_ids (trace s)) \<subseteq> {jm_jobId jobMeta}
    \<and> (\<not> settled s \<longrightarrow> filter is_terminal_write (trace s) = [])
    \<and> (settled s \<and> Uncaught \<notin> set (trace s) \<longrightarrow> length (filter is_terminal_write (trace s)) = 1)"
proof (cases r)
  case (BgPid pid)
  with run have inv: "bg_inv (jm_jobId jobMeta) s" using bg_run_inv by blast
  let ?ss = "statuses (trace s)"
  from inv have two: "take 2 ?ss = [Spawned, Running]" and le3: "length ?ss \<le> 3"
    and unsettled: "\<not> settled s \<longrightarrow> length ?ss = 2"
    and settled3: "settled s \<and> Uncaught \<notin> set (trace s) \<longrightarrow> length ?ss = 3"
    and quiet: "quiet_after_terminal (trace s)"
    and ids: "set (store_ids (trace s)) \<subseteq> {jm_jobId jobMeta}"
    and tails: "list_all terminal (drop 2 ?ss)"
    by (simp_all add: bg_inv_def)
  from two obtain rest where shape: "?ss = Spawned # Running # rest"
    by (cases ?ss; cases "tl ?ss") auto
  have count: "length (filter is_terminal_write (trace s)) = length rest"
    using tails shape by (simp add: terminal_write_statuses list_all_iff filter_id_conv)
  have c1: "\<exists>st. terminal st \<and> prefix ?ss [Spawned, Running, st]"
    using inv by (rule bg_inv_prefix)
  have c2: "statuses (trace (snd (background_start p e sp t fullPrompt model jobMeta))) = [Spawned, Running]"
    using run BgPid bg_fst [of p e parse w32 sp t fullPrompt model jobMeta tevents]
    by (intro bg_start_statuses [of _ _ _ _ _ _ _ pid]) simp
  have c5: "\<forall>tr1 x tr2. trace s = tr1 @ x # tr2 \<and> is_terminal_write x \<longrightarrow> filter is_store_write tr2 = []"
    using quiet quiet_decompose by metis
  have c6: "settled s = list_ex (\<lambda>tev. settling (snd tev)) tevents"
  proof -
    obtain r0 s0 where start: "background_start p e sp t fullPrompt model jobMeta = (r0, s0)"
      by (cases "background_start p e sp t fullPrompt model jobMeta")
    with run BgPid have r0: "r0 = BgPid pid"
      by (cases r0) (simp_all add: executeBackground_def split: spawn_outcome.splits)
    with start bg_inv_start have "\<not> settled s0" by blast
    with start r0 run show ?thesis
      by (auto simp: executeBackground_def bg_run_settled_iff)
  qed
  from c1 c2 two c5 c6 ids count le3 unsettled settled3 shape BgPid show ?thesis by auto
next
  case (BgError msg)
  with run obtain n where tr: "trace s = SpawnChild (provider_tag p) (spawn_args p model) True # replicate n Uncaught"
    and ns: "\<not> settled s"
    using bg_run_error by blast
  from tr have st: "statuses (trace s) = []" "store_ids (trace s) = []"
    "filter is_store_write (trace s) = []" "filter is_terminal_write (trace s) = []"
    by (simp_all add: uncaught_only)
  from tr have "\<forall>x \<in> set (trace s). \<not> is_terminal_write x" by auto
  then have c5: "\<forall>tr1 x tr2. trace s = tr1 @ x # tr2 \<and> is_terminal_write x \<longrightarrow> filter is_store_write tr2 = []"
    by (metis in_set_conv_decomp)
  have "prefix ([]::status list) [Spawned, Running, Failed]" by simp
  with st ns c5 BgError show ?thesis
    by (auto intro: exI [of _ Failed])
qed

theorem status_sequence_witness:
  "statuses (trace (snd (executeBackground Gemini env0 (\<lambda>l. None) False (Child (Some 4242)) ''t0'' ''q''
           ''gemini-2.5-pro'' meta0 [(''t1'', TimerFired), (''t2'', Close (Some 0))])))
     = [Spawned, Running, Timeout]
   \<and> (\<exists>st. terminal st \<and> prefix (statuses (trace (snd (executeBackground Gemini env0 (\<lambda>l. None) False
           (Child (Some 4242)) ''t0'' ''q'' ''gemini-2.5-pro'' meta0 [(''t1'', TimerFired), (''t2'', Close (Some 0))]))))
         [Spawned, Running, st])
   \<and> length (filter is_terminal_write (trace (snd (executeBackground Gemini env0 (\<lambda>l. None) False
           (Child (Some 4242)) ''t0'' ''q'' ''gemini-2.5-pro'' meta0 [(''t1'', TimerFired), (''t2'', Close (Some 0))])))) = 1"
proof -
  let ?run = "executeBackground Gemini env0 (\<lambda>l. None) False (Child (Some 4242)) ''t0'' ''q''
           ''gemini-2.5-pro'' meta0 [(''t1'', TimerFired), (''t2'', Close (Some 0))]"
  have a: "statuses (trace (snd ?run)) = [Spawned, Running, Timeout]"
    by (simp add: executeBackground_def background_start_def terminal_status_def initialStatus_def)
  have b: "settled (snd ?run) \<and> Uncaught \<notin> set (trace (snd ?run))"
    by (simp add: executeBackground_def background_start_def)
  have "?run = (fst ?run, snd ?run)" by simp
  from status_sequence [OF this] a b show ?thesis by blast
qed

lemma output_lines_tostring: "output_lines tostring_line = [tostring_line]"
  by (simp add: output_lines_def tostring_line_def trim_def is_ws_def)

lemma collected_tostring: "collected tostring_parse tostring_line = [JObj [(''toString'', JNum ''1'')]]"
  by (simp add: collected_def output_lines_tostring collect_line_def tostring_parse_def table_parse_def
        tostring_event_def collect_event_def collect_message_def nullish_def)

lemma decode_tostring: "decode Codex tostring_parse tostring_line = None"
  by (simp add: decode_def parseCodexOutput_def collected_tostring join_vals_def nullish_def)

lemma stuck_job_nil:
  "fst (stuck_job []) = BgPid 4242 \<and> settled (snd (stuck_job []))
   \<and> trace (snd (stuck_job [])) =
       [SpawnChild (provider_tag Codex) (spawn_args Codex ''gpt-5.2'') True, Unref,
        WriteJobStatus (initialStatus Codex 4242 ''gpt-5.2'' meta0 ''t0''),
        SetTimeout (TIMEOUT Codex env0), StdinWrite ''q'', StdinEnd,
        WriteJobStatus ((initialStatus Codex 4242 ''gpt-5.2'' meta0 ''t0'')\<lparr>js_status := Running\<rparr>),
        ClearTimeout, Uncaught]"
  by (simp add: stuck_job_def executeCodexBackground_def executeBackground_def background_start_def
        decode_tostring close_ok_def emit_def)

text \<open>
  C2 fails on the Codex supervisor, where it says that exactly one terminal status is
  written per job. A child prints the line \<^verbatim>\<open>{"type":"output_text","text":{"toString":1}}\<close>
  and exits with code 0. The close handler sets the flag and clears the timer; the
  decoder collects the object and \<^verbatim>\<open>messages.join\<close> throws, before the response is stored
  and before the completed status is written. The job is settled, the records written
  are spawned and running, there is no terminal record, and whatever events follow
  (the timer was cleared, and every handler returns on the flag) none is ever written.
\<close>

theorem decoder_throw_leaves_job_running:
  "fst (stuck_job []) = BgPid 4242
   \<and> settled (snd (stuck_job []))
   \<and> (\<forall>later. statuses (trace (snd (stuck_job later))) = [Spawned, Running]
         \<and> filter is_terminal_write (trace (snd (stuck_job later))) = []
         \<and> ClearTimeout \<in> set (trace (snd (stuck_job later)))
         \<and> Uncaught \<in> set (trace (snd (stuck_job later))))"
proof -
  have tr: "trace (snd (stuck_job later)) = trace (snd (stuck_job []))" for later
    using stuck_job_nil
      bg_later_noop [of Codex env0 tostring_parse False "Child (Some 4242)" "''t0''" "''q''" "''gpt-5.2''" meta0
        "[(''t1'', StdoutData tostring_line), (''t2'', Close (Some 0))]" later]
    by (simp add: stuck_job_def executeCodexBackground_def)
  have "statuses (trace (snd (stuck_job []))) = [Spawned, Running]"
    "filter is_terminal_write (trace (snd (stuck_job []))) = []"
    "ClearTimeout \<in> set (trace (snd (stuck_job [])))"
    "Uncaught \<in> set (trace (snd (stuck_job [])))"
    using stuck_job_nil by (simp_all add: initialStatus_def)
  with tr stuck_job_nil show ?thesis by simp
qed

subsection \<open>The output decoder\<close>

lemma dropWhile_all: "(\<forall>c \<in> set (dropWhile P xs). P c) \<longleftrightarrow> (\<forall>c \<in> set xs. P c)"
  by (induction xs) auto

lemma trim_empty_iff: "trim s = [] \<longleftrightarrow> list_all is_ws s"
  by (simp add: trim_def dropWhile_all list_all_iff)
















lemma output_lines_ok: "output_lines ok_line = [ok_line]"
  by (simp add: output_lines_def ok_line_def trim_def is_ws_def)







subsection \<open>Classification of a close event\<close>

lemma close_ok_iff: "close_ok code out = (code = Some 0 \<or> \<not> list_all is_ws out)"
  by (simp add: close_ok_def trim_empty_iff)

lemma scenario_decode: "parse ok_line = Some ok_event \<Longrightarrow> parseCodexOutput parse ok_line = Some ''ok''"
  by (simp add: parseCodexOutput_def collected_def output_lines_ok collect_line_def ok_event_def
        collect_event_def collect_message_def nullish_def join_vals_def)

lemma ok_line_not_blank: "trim ok_line \<noteq> []"
  by (simp add: trim_empty_iff ok_line_def is_ws_def)

text \<open>
  C3, as the code has it. For a close event with exit code \<open>code\<close> that finds the
  operation not settled, with \<open>stdout s\<close> and \<open>stderr s\<close> accumulated: the test of the
  handler holds if and only if the code is zero or the standard output has a character
  that is not white space. When it holds and the decoder returns \<open>r\<close>, the execution
  resolves with \<open>r\<close> (a background job persists \<open>r\<close> and then writes the completed status);
  when it does not hold the execution rejects (a background job writes the failed status)
  with the provider's name, the exit code and the standard error text, or
  \<^verbatim>\<open>No output\<close> when that is empty. The decoded output is \<^verbatim>\<open>stdout.trim()\<close> for Gemini and
  \<^verbatim>\<open>parseCodexOutput(stdout)\<close> for Codex. Exit code 1 with the one line
  \<^verbatim>\<open>{"type":"output_text","text":"ok"}\<close> on standard output resolves with \<^verbatim>\<open>ok\<close>, for every
  parser that reads that line as the object it denotes.
\<close>

theorem close_classification:
  assumes "\<not> settled s"
  shows "close_ok code (stdout s) = (code = Some 0 \<or> \<not> list_all is_ws (stdout s))
    \<and> (close_ok code (stdout s) \<and> decode p parse (stdout s) = Some r \<longrightarrow>
          execute_on p e parse s (Close code) = emit [ClearTimeout, Resolve r] (s\<lparr>settled := True\<rparr>)
          \<and> background_on p e parse w32 model jobMeta initial s (t, Close code)
            = emit [ClearTimeout,
                    PersistResponse
                      \<lparr>rr_provider = p, rr_agentRole = jm_agentRole jobMeta, rr_model = model,
                       rr_promptId = jm_jobId jobMeta, rr_slug = jm_slug jobMeta, rr_response = r,
                       rr_usedFallback = None, rr_fallbackModel = None\<rparr>,
                    WriteJobStatus (terminal_status initial Completed t None)] (s\<lparr>settled := True\<rparr>))
    \<and> (\<not> close_ok code (stdout s) \<longrightarrow>
          execute_on p e parse s (Close code)
            = emit [ClearTimeout,
                    Reject (provider_name p @ '' exited with code '' @ show_code code @ '': ''
                            @ (if stderr s = [] then ''No output'' else stderr s))] (s\<lparr>settled := True\<rparr>)
          \<and> background_on p e parse w32 model jobMeta initial s (t, Close code)
            = emit [ClearTimeout,
                    WriteJobStatus (terminal_status initial Failed t
                      (Some (provider_name p @ '' exited with code '' @ show_code code @ '': ''
                             @ (if stderr s = [] then ''No output'' else stderr s))))] (s\<lparr>settled := True\<rparr>))
    \<and> decode Gemini parse (stdout s) = Some (trim (stdout s))
    \<and> decode Codex parse (stdout s) = parseCodexOutput parse (stdout s)
    \<and> (parse ok_line = Some ok_event \<longrightarrow>
          promise_of (trace (executeCodex e parse (Child pid) prompt model [StdoutData ok_line, Close (Some 1)]))
            = Resolved ''ok'')"
proof -
  have scen: "promise_of (trace (executeCodex e parse (Child pid) prompt model [StdoutData ok_line, Close (Some 1)]))
            = Resolved ''ok''" if "parse ok_line = Some ok_event"
    using that scenario_decode [of parse] ok_line_not_blank
    by (simp add: executeCodex_def execute_def execute_start_def close_ok_def decode_def)
  from assms scen show ?thesis
    by (simp add: close_ok_iff exit_message_def decode_def)
qed

theorem close_classification_witness:
  "close_ok (Some 1) (stdout blank_state) = False
   \<and> execute_on Gemini env0 sample_parse blank_state (Close (Some 1))
       = emit [ClearTimeout, Reject ''Gemini exited with code 1: boom''] (blank_state\<lparr>settled := True\<rparr>)
   \<and> execute_on Gemini env0 sample_parse (blank_state\<lparr>stdout := ''  done ''\<rparr>) (Close (Some 1))
       = emit [ClearTimeout, Resolve ''done''] (blank_state\<lparr>stdout := ''  done '', settled := True\<rparr>)
   \<and> promise_of (trace (executeCodex env0 sample_parse (Child (Some 4242)) ''q'' ''gpt-5.2''
         [StdoutData ok_line, Close (Some 1)]))
       = Resolved ''ok''"
proof -
  have a: "\<not> settled blank_state" "\<not> settled (blank_state\<lparr>stdout := ''  done ''\<rparr>)"
    by (simp_all add: blank_state_def)
  have b: "\<not> close_ok (Some 1) (stdout blank_state)"
    by (simp add: close_ok_def blank_state_def trim_def is_ws_def)
  have c: "close_ok (Some 1) (stdout (blank_state\<lparr>stdout := ''  done ''\<rparr>))
           \<and> decode Gemini sample_parse (stdout (blank_state\<lparr>stdout := ''  done ''\<rparr>)) = Some ''done''"
    by (simp add: close_ok_def decode_def trim_def is_ws_def)
  have d: "sample_parse ok_line = Some ok_event"
    by (simp add: sample_parse_def table_parse_def)
  have e: "show_code (Some 1) = ''1''" "stderr blank_state = ''boom''"
    by (simp_all add: show_code_def show_int_def digits_of.simps digit_char_def blank_state_def)
  from b c d e
    close_classification [OF a(1), where code = "Some 1" and p = Gemini and parse = sample_parse and e = env0]
    close_classification [OF a(2), where code = "Some 1" and p = Gemini and parse = sample_parse
      and r = "''done''" and e = env0]
    close_classification [OF a(1), where parse = sample_parse and e = env0 and prompt = "''q''"
      and model = "''gpt-5.2''" and pid = "Some 4242"]
  show ?thesis by (simp add: provider_name_def)
qed

text \<open>
  C3 as stated fails: with exit code 1 and a standard output that is not empty but
  holds only a space and a line feed, both executors reject.
\<close>

theorem close_nonempty_counterexample:
  "stdout blank_state \<noteq> []
   \<and> promise_of (trace (execute_on Gemini env0 sample_parse blank_state (Close (Some 1))))
       = Rejected ''Gemini exited with code 1: boom''
   \<and> promise_of (trace (execute_on Codex env0 sample_parse blank_state (Close (Some 1))))
       = Rejected ''Codex exited with code 1: boom''"
  by (simp add: blank_state_def close_ok_def trim_def is_ws_def exit_message_def provider_name_def
        show_code_def show_int_def digits_of.simps digit_char_def)

text \<open>
  C10. A close event with an exit code other than zero (or none) that finds the operation
  not settled and the accumulated standard output empty or all white space is a failure:
  the synchronous executor rejects with the exit message, the background supervisor
  writes the failed status with it; so do a whole execution and a whole background job
  that receive such output and then the close event.
\<close>

theorem blank_output_fails:
  assumes "\<not> settled s" and "code \<noteq> Some 0" and "list_all is_ws (stdout s)"
  shows "execute_on p e parse s (Close code)
           = emit [ClearTimeout, Reject (exit_message p code (stderr s))] (s\<lparr>settled := True\<rparr>)
    \<and> background_on p e parse w32 model jobMeta initial s (t, Close code)
           = emit [ClearTimeout,
                   WriteJobStatus (terminal_status initial Failed t (Some (exit_message p code (stderr s))))]
               (s\<lparr>settled := True\<rparr>)
    \<and> promise_of (trace (execute p e parse (Child cpid) prompt model [StdoutData (stdout s), Close code]))
           = Rejected (exit_message p code [])
    \<and> statuses (trace (snd (executeBackground p e parse w32 (Child (Some (Suc pid))) t fullPrompt model jobMeta
                              [(t1, StdoutData (stdout s)), (t2, Close code)])))
           = [Spawned, Running, Failed]"
  using assms
  by (simp add: close_ok_iff execute_def execute_start_def executeBackground_def background_start_def
        initialStatus_def terminal_status_def)

theorem blank_output_fails_witness:
  "list_all is_ws (stdout blank_state)
   \<and> execute_on Codex env0 sample_parse blank_state (Close None)
       = emit [ClearTimeout, Reject ''Codex exited with code null: boom''] (blank_state\<lparr>settled := True\<rparr>)
   \<and> statuses (trace (snd (executeBackground Gemini env0 sample_parse False (Child (Some (Suc 41))) ''t0'' ''q''
         ''gemini-2.5-pro'' meta0 [(''t1'', StdoutData (stdout blank_state)), (''t2'', Close None)])))
       = [Spawned, Running, Failed]"
proof -
  have a: "\<not> settled blank_state" "None \<noteq> Some (0::int)" "list_all is_ws (stdout blank_state)"
    by (simp_all add: blank_state_def is_ws_def)
  have b: "exit_message Codex None (stderr blank_state) = ''Codex exited with code null: boom''"
    by (simp add: exit_message_def provider_name_def show_code_def blank_state_def)
  from a(3) b blank_output_fails [OF a, where p = Codex and e = env0 and parse = sample_parse]
    blank_output_fails [OF a, where p = Gemini and e = env0 and parse = sample_parse and ?w32.0 = False
      and model = "''gemini-2.5-pro''" and jobMeta = meta0 and t = "''t0''" and fullPrompt = "''q''"
      and pid = 41 and ?t1.0 = "''t1''" and ?t2.0 = "''t2''"]
  show ?thesis by simp
qed

subsection \<open>The fallback chain and the request handlers\<close>

lemma indexOf_None: "indexOf xs x = None \<longleftrightarrow> x \<notin> set xs"
  by (induction xs) auto

lemma indexOf_first: "i < length xs \<Longrightarrow> xs ! i = x \<Longrightarrow> x \<notin> set (take i xs) \<Longrightarrow> indexOf xs x = Some i"
proof (induction xs arbitrary: i)
  case Nil
  then show ?case by simp
next
  case (Cons y ys)
  then show ?case by (cases i) auto
qed

lemma indexOf_Some: "indexOf xs x = Some i \<Longrightarrow> i < length xs \<and> xs ! i = x \<and> x \<notin> set (take i xs)"
proof (induction xs arbitrary: i)
  case Nil
  then show ?case by simp
next
  case (Cons y ys)
  then show ?case by (cases "y = x") auto
qed

lemma modelsToTry_not_Nil: "modelsToTry fallbacks requestedModel \<noteq> []"
  by (auto simp: modelsToTry_def split: option.splits dest: indexOf_Some)

lemma distinct_first: "distinct xs \<Longrightarrow> i < length xs \<Longrightarrow> xs ! i \<notin> set (take i xs)"
  by (metis distinct_take id_take_nth_drop not_distinct_conv_prefix)

lemma execute_on_spawn: "filter is_spawn (trace (execute_on p e parse s ev)) = filter is_spawn (trace s)"
  by (cases ev) (simp_all split: option.splits)

lemma execute_on_persist:
  "filter is_persist_response (trace (execute_on p e parse s ev)) = filter is_persist_response (trace s)"
  by (cases ev) (simp_all split: option.splits)

lemma run_spawn: "filter is_spawn (trace (foldl (execute_on p e parse) s evs)) = filter is_spawn (trace s)"
  by (induction evs arbitrary: s) (simp_all add: execute_on_spawn)

lemma run_persist:
  "filter is_persist_response (trace (foldl (execute_on p e parse) s evs)) = filter is_persist_response (trace s)"
  by (induction evs arbitrary: s) (simp_all add: execute_on_persist)

lemma execute_spawns: "filter is_spawn (trace (execute p e parse sp prompt m events)) = [spawn_of p False m]"
  by (cases sp) (simp_all add: execute_def run_spawn execute_start_def spawn_of_def)

lemma execute_persists: "filter is_persist_response (trace (execute p e parse sp prompt m events)) = []"
  by (cases sp) (simp_all add: execute_def run_persist execute_start_def)

lemma loop_spawns:
  "filter is_spawn (snd (fallback_loop w pp k models errors tr))
   = filter is_spawn tr @ map (spawn_of Gemini False) (attempted w pp k models)"
proof (induction models arbitrary: k errors tr)
  case Nil
  then show ?case by simp
next
  case (Cons m ms)
  show ?case
    by (cases "attempt w pp k m")
       (simp_all add: attempt_def Let_def executeGemini_def execute_spawns persist_response_def Cons.IH
          split: option.splits)
qed

lemma attempted_prefix: "prefix (attempted w pp k models) models"
  by (induction models arbitrary: k) (simp_all split: outcome.splits)

lemma loop_all_fail:
  assumes "\<forall>i<length models. \<exists>msg. attempt w pp (k + i) (models ! i) = Rejected msg"
  shows "fst (fallback_loop w pp k models errors tr)
           = Some (error_result (paramLines pp @ SEP @ ''Gemini CLI error: all models failed.'' @ NL
                                 @ join NL (errors @ failures w pp k models)))
    \<and> filter is_persist_response (snd (fallback_loop w pp k models errors tr)) = filter is_persist_response tr
    \<and> attempted w pp k models = models
    \<and> length (failures w pp k models) = length models"
  using assms
proof (induction models arbitrary: k errors tr)
  case Nil
  then show ?case by simp
next
  case (Cons m ms)
  from Cons.prems obtain msg where m: "attempt w pp k m = Rejected msg" by fastforce
  have "\<forall>i<length ms. \<exists>msg. attempt w pp (Suc k + i) (ms ! i) = Rejected msg"
  proof (intro allI impI)
    fix i assume "i < length ms"
    with Cons.prems have "\<exists>msg. attempt w pp (k + Suc i) ((m # ms) ! Suc i) = Rejected msg"
      by (metis Suc_less_eq length_Cons)
    then show "\<exists>msg. attempt w pp (Suc k + i) (ms ! i) = Rejected msg" by simp
  qed
  from Cons.IH [OF this] m show ?case
    by (simp add: attempt_def [symmetric] Let_def executeGemini_def execute_persists attempt_def)
qed

lemma failures_nth:
  assumes "\<forall>i<length models. \<exists>msg. attempt w pp (k + i) (models ! i) = Rejected msg" and "i < length models"
  shows "\<exists>msg. attempt w pp (k + i) (models ! i) = Rejected msg
               \<and> failures w pp k models ! i = models ! i @ '': '' @ msg"
  using assms
proof (induction models arbitrary: k i)
  case Nil
  then show ?case by simp
next
  case (Cons m ms)
  from Cons.prems(1) obtain msg where m: "attempt w pp k m = Rejected msg" by fastforce
  show ?case
  proof (cases i)
    case 0
    with m show ?thesis by simp
  next
    case (Suc j)
    have "\<forall>i<length ms. \<exists>msg. attempt w pp (Suc k + i) (ms ! i) = Rejected msg"
    proof (intro allI impI)
      fix i assume "i < length ms"
      with Cons.prems(1) have "\<exists>msg. attempt w pp (k + Suc i) ((m # ms) ! Suc i) = Rejected msg"
        by (metis Suc_less_eq length_Cons)
      then show "\<exists>msg. attempt w pp (Suc k + i) (ms ! i) = Rejected msg" by simp
    qed
    moreover from Suc Cons.prems(2) have "j < length ms" by simp
    ultimately have "\<exists>msg. attempt w pp (Suc k + j) (ms ! j) = Rejected msg
               \<and> failures w pp (Suc k) ms ! j = ms ! j @ '': '' @ msg"
      by (rule Cons.IH)
    with Suc m show ?thesis by simp
  qed
qed

lemma prepare_invalid:
  "\<not> role_ok p (arg_agent_role args) \<Longrightarrow>
   prepare p w args = Inl (error_result (''Invalid agent_role: \"'' @ show_role (arg_agent_role args) @ ''\". ''
                      @ provider_name p @ '' requires one of: '' @ join '', '' (VALID_ROLES p)), [])"
  by (simp add: prepare_def Let_def)

lemma prepare_Inr: "prepare p w args = Inr pp \<Longrightarrow>
   filter is_spawn (pp_trace pp) = [] \<and> filter is_persist_response (pp_trace pp) = []
   \<and> role_ok p (arg_agent_role args) \<and> det_available (detectCli w p)
   \<and> length (files_of (arg_files args)) \<le> MAX_CONTEXT_FILES"
  by (auto simp: prepare_def Let_def filter_empty_conv non_empty_def files_of_def MAX_CONTEXT_FILES_def
        split: if_splits option.splits)

lemma prepare_Inl: "prepare p w args = Inl (r, tr) \<Longrightarrow> filter is_spawn tr = [] \<and> isError r"
  by (auto simp: prepare_def Let_def error_result_def split: if_splits)

lemma background_start_spawn:
  "filter is_spawn (trace (snd (background_start p e sp t fullPrompt m jm))) = [spawn_of p True m]"
  by (simp add: background_start_def Let_def spawn_of_def split: spawn_outcome.splits option.splits)

lemma background_on_spawn:
  "filter is_spawn (trace (background_on p e parse w32 m jm ini s tev)) = filter is_spawn (trace s)"
proof -
  obtain t ev where "tev = (t, ev)" by (cases tev)
  then show ?thesis by (cases ev) (simp_all split: option.splits)
qed

lemma background_run_spawn:
  "filter is_spawn (trace (foldl (background_on p e parse w32 m jm ini) s tevs)) = filter is_spawn (trace s)"
  by (induction tevs arbitrary: s) (simp_all add: background_on_spawn)

lemma unhandled_run_spawn:
  "filter is_spawn (trace (foldl unhandled_on s tevs)) = filter is_spawn (trace s)"
proof -
  obtain n where "foldl unhandled_on s tevs = emit (replicate n Uncaught) s"
    using unhandled_run by blast
  then show ?thesis by (simp add: emit_def)
qed

lemma executeBackground_spawn:
  "filter is_spawn (trace (snd (executeBackground p e parse w32 sp t fullPrompt m jm tevents))) = [spawn_of p True m]"
  using background_start_spawn [of p e sp t fullPrompt m jm]
  by (cases "background_start p e sp t fullPrompt m jm"; cases "fst (background_start p e sp t fullPrompt m jm)")
     (simp_all add: executeBackground_def background_run_spawn unhandled_run_spawn split: spawn_outcome.splits)

lemma hd_modelsToTry: "hd (modelsToTry fallbacks requestedModel) = requestedModel"
proof (cases "indexOf fallbacks requestedModel")
  case None
  then show ?thesis by (simp add: modelsToTry_def)
next
  case (Some i)
  from indexOf_Some [OF this] show ?thesis
    using Some by (simp add: modelsToTry_def hd_drop_conv_nth)
qed

lemma dispatch_spawns:
  "filter is_spawn (pp_trace pp) = [] \<Longrightarrow>
   filter is_spawn (snd (dispatch_background p fallbacks w pp))
   = (case pp_promptResult pp of None \<Rightarrow> []
      | Some r \<Rightarrow> [spawn_of p True (background_model p fallbacks (pp_model pp))])"
  by (simp add: dispatch_background_def Let_def background_start_spawn split: option.splits bg_result.splits)

lemma prepare0: "prepare Gemini world0 args0 = Inr prepared0"
  by (simp add: prepare_def Let_def world0_def args0_def prepared0_def role_ok_def VALID_ROLES_def show_role_def
        non_empty_def files_of_def)

lemma chain0: "modelsToTry GEMINI_MODEL_FALLBACKS ''gemini-2.5-pro'' = [''gemini-2.5-pro'', ''gemini-2.5-flash'']"
  by (simp add: modelsToTry_def GEMINI_MODEL_FALLBACKS_def)

lemma attempt0: "attempt world0 prepared0 k m = Rejected ''Gemini exited with code 1: No output''"
  by (simp add: attempt_def executeGemini_def execute_def execute_start_def world0_def close_ok_def trim_def
        exit_message_def provider_name_def show_code_def show_int_def digits_of.simps digit_char_def)

lemma attempted_whole:
  assumes "\<forall>i. Suc i < length models \<longrightarrow> (\<exists>msg. attempt w pp (k + i) (models ! i) = Rejected msg)"
  shows "attempted w pp k models = models"
  using assms
proof (induction models arbitrary: k)
  case Nil
  then show ?case by simp
next
  case (Cons m ms)
  show ?case
  proof (cases ms)
    case Nil
    then show ?thesis by (simp split: outcome.splits)
  next
    case (Cons m' ms')
    then have "Suc 0 < length (m # ms)" by simp
    with Cons.prems have "\<exists>msg. attempt w pp (k + 0) ((m # ms) ! 0) = Rejected msg" by blast
    then obtain msg where m: "attempt w pp k m = Rejected msg" by auto
    have "\<forall>i. Suc i < length ms \<longrightarrow> (\<exists>msg. attempt w pp (Suc k + i) (ms ! i) = Rejected msg)"
    proof (intro allI impI)
      fix i assume "Suc i < length ms"
      then have "Suc (Suc i) < length (m # ms)" by simp
      with Cons.prems have "\<exists>msg. attempt w pp (k + Suc i) ((m # ms) ! Suc i) = Rejected msg" by blast
      then show "\<exists>msg. attempt w pp (Suc k + i) (ms ! i) = Rejected msg" by simp
    qed
    from Cons.IH [OF this] m show ?thesis by simp
  qed
qed

text \<open>
  C4. The chain for a requested model \<open>m\<close> and a canonical list \<open>L\<close>: when \<open>m\<close> is not in
  \<open>L\<close>, the chain is \<open>m\<close> followed by all of \<open>L\<close>; when \<open>m\<close> is in \<open>L\<close> and \<open>i\<close> is its
  first index (its only index when \<open>L\<close> has no repetition, as the canonical list of the
  code has none), the chain is \<open>L\<close> from index \<open>i\<close> on, and no element of \<open>L\<close> before
  index \<open>i\<close> is in it. A synchronous request that reaches the loop spawns children for
  the models of a prefix of the chain, in order, one each: the models up to the first
  whose execution does not reject; that is the whole chain when every execution but
  the last rejects.
\<close>

theorem fallback_chain_order:
  "(m \<notin> set L \<longrightarrow> modelsToTry L m = m # L)
   \<and> (i < length L \<and> L ! i = m \<and> m \<notin> set (take i L) \<longrightarrow> modelsToTry L m = drop i L)
   \<and> (distinct L \<and> i < length L \<and> L ! i = m \<longrightarrow>
         modelsToTry L m = drop i L \<and> (\<forall>j<i. L ! j \<notin> set (modelsToTry L m)))
   \<and> distinct GEMINI_MODEL_FALLBACKS
   \<and> (\<not> arg_background args \<and> prepare Gemini w args = Inr pp \<longrightarrow>
         filter is_spawn (snd (handleAsk Gemini L w args))
           = map (spawn_of Gemini False) (attempted w pp 0 (modelsToTry L (pp_model pp)))
         \<and> prefix (attempted w pp 0 (modelsToTry L (pp_model pp))) (modelsToTry L (pp_model pp)))
   \<and> ((\<forall>k. Suc k < length (modelsToTry L (pp_model pp)) \<longrightarrow>
          (\<exists>msg. attempt w pp k (modelsToTry L (pp_model pp) ! k) = Rejected msg)) \<longrightarrow>
         attempted w pp 0 (modelsToTry L (pp_model pp)) = modelsToTry L (pp_model pp))"
proof -
  have a: "m \<notin> set L \<longrightarrow> modelsToTry L m = m # L"
    using indexOf_None [of L m] by (cases "indexOf L m") (simp_all add: modelsToTry_def)
  have b: "modelsToTry L m = drop i L" if "i < length L" "L ! i = m" "m \<notin> set (take i L)"
    using indexOf_first [OF that] by (simp add: modelsToTry_def)
  have c: "modelsToTry L m = drop i L \<and> (\<forall>j<i. L ! j \<notin> set (modelsToTry L m))"
    if d: "distinct L" and i: "i < length L" and m: "L ! i = m"
  proof -
    from distinct_first [OF d i] m have "m \<notin> set (take i L)" by simp
    with i m have eq: "modelsToTry L m = drop i L" by (rule b)
    have "L ! j \<notin> set (drop i L)" if "j < i" for j
    proof
      assume "L ! j \<in> set (drop i L)"
      then obtain k where k: "k < length (drop i L)" "drop i L ! k = L ! j"
        by (auto simp: in_set_conv_nth)
      with i have "L ! (i + k) = L ! j" "i + k < length L" by simp_all
      with d that i have "i + k = j" by (simp add: nth_eq_iff_index_eq)
      with that show False by simp
    qed
    with eq show ?thesis by simp
  qed
  have e: "filter is_spawn (snd (handleAsk Gemini L w args))
           = map (spawn_of Gemini False) (attempted w pp 0 (modelsToTry L (pp_model pp)))"
    if "\<not> arg_background args" "prepare Gemini w args = Inr pp"
    using that prepare_Inr [OF that(2)] by (simp add: handleAsk_def sync_gemini_def loop_spawns)
  have f: "attempted w pp 0 (modelsToTry L (pp_model pp)) = modelsToTry L (pp_model pp)"
    if "\<forall>k. Suc k < length (modelsToTry L (pp_model pp)) \<longrightarrow>
          (\<exists>msg. attempt w pp k (modelsToTry L (pp_model pp) ! k) = Rejected msg)"
    using attempted_whole [of "modelsToTry L (pp_model pp)" w pp 0] that by simp
  have g: "distinct GEMINI_MODEL_FALLBACKS" by (simp add: GEMINI_MODEL_FALLBACKS_def)
  from a b c e f g attempted_prefix [of w pp 0 "modelsToTry L (pp_model pp)"] show ?thesis by blast
qed

theorem fallback_chain_order_witness:
  "modelsToTry GEMINI_MODEL_FALLBACKS ''gemini-2.5-pro'' = [''gemini-2.5-pro'', ''gemini-2.5-flash'']
   \<and> modelsToTry GEMINI_MODEL_FALLBACKS ''gemini-1.5-pro'' = ''gemini-1.5-pro'' # GEMINI_MODEL_FALLBACKS
   \<and> filter is_spawn (snd (handleAsk Gemini GEMINI_MODEL_FALLBACKS world0 args0))
       = [SpawnChild ''gemini'' [''--yolo'', ''--model'', ''gemini-2.5-pro''] False,
          SpawnChild ''gemini'' [''--yolo'', ''--model'', ''gemini-2.5-flash''] False]"
proof -
  have a: "''gemini-1.5-pro'' \<notin> set GEMINI_MODEL_FALLBACKS"
    by (simp add: GEMINI_MODEL_FALLBACKS_def)
  have b: "2 < length GEMINI_MODEL_FALLBACKS \<and> GEMINI_MODEL_FALLBACKS ! 2 = ''gemini-2.5-pro''"
    by (simp add: GEMINI_MODEL_FALLBACKS_def)
  have c: "\<not> arg_background args0" by (simp add: args0_def)
  have d: "drop 2 GEMINI_MODEL_FALLBACKS = [''gemini-2.5-pro'', ''gemini-2.5-flash'']"
    by (simp add: GEMINI_MODEL_FALLBACKS_def)
  have e: "pp_model prepared0 = ''gemini-2.5-pro''" by (simp add: prepared0_def)
  have f: "\<forall>k. Suc k < length (modelsToTry GEMINI_MODEL_FALLBACKS (pp_model prepared0)) \<longrightarrow>
          (\<exists>msg. attempt world0 prepared0 k (modelsToTry GEMINI_MODEL_FALLBACKS (pp_model prepared0) ! k) = Rejected msg)"
    by (simp add: attempt0)
  from fallback_chain_order [where L = GEMINI_MODEL_FALLBACKS and m = "''gemini-1.5-pro''" and i = 0
      and w = world0 and args = args0 and pp = prepared0] a
  have one: "modelsToTry GEMINI_MODEL_FALLBACKS ''gemini-1.5-pro'' = ''gemini-1.5-pro'' # GEMINI_MODEL_FALLBACKS"
    by blast
  from fallback_chain_order [where L = GEMINI_MODEL_FALLBACKS and m = "''gemini-2.5-pro''" and i = 2
      and w = world0 and args = args0 and pp = prepared0] b d
  have two: "modelsToTry GEMINI_MODEL_FALLBACKS ''gemini-2.5-pro'' = [''gemini-2.5-pro'', ''gemini-2.5-flash'']"
    by simp
  from fallback_chain_order [where L = GEMINI_MODEL_FALLBACKS and m = "''gemini-2.5-pro''" and i = 2
      and w = world0 and args = args0 and pp = prepared0]
    c prepare0 f
  have "filter is_spawn (snd (handleAsk Gemini GEMINI_MODEL_FALLBACKS world0 args0))
        = map (spawn_of Gemini False) (modelsToTry GEMINI_MODEL_FALLBACKS (pp_model prepared0))"
    by simp
  with one two e show ?thesis
    by (simp add: spawn_of_def provider_tag_def spawn_args_def gemini_args_def)
qed

text \<open>
  C5. When a synchronous Gemini request reaches the loop and the execution of every
  model of the chain rejects, the result is the error result whose text ends with one
  line per model of the chain, in the order of the chain, each the model, a colon and a
  space, and the message of its rejection; a child has been spawned for every model of
  the chain, in order, and no response record is persisted. (\<open>handleAskGemini\<close> is
  \<open>handleAsk Gemini GEMINI_MODEL_FALLBACKS\<close>.)
\<close>

theorem all_models_fail:
  assumes sync: "\<not> arg_background args"
    and prep: "prepare Gemini w args = Inr pp"
    and fail: "\<forall>i<length (modelsToTry L (pp_model pp)).
                 \<exists>msg. attempt w pp i (modelsToTry L (pp_model pp) ! i) = Rejected msg"
  shows "fst (handleAsk Gemini L w args)
           = Some (error_result (paramLines pp @ SEP @ ''Gemini CLI error: all models failed.'' @ NL
                                 @ join NL (failures w pp 0 (modelsToTry L (pp_model pp)))))
    \<and> isError (error_result (paramLines pp @ SEP @ ''Gemini CLI error: all models failed.'' @ NL
                                 @ join NL (failures w pp 0 (modelsToTry L (pp_model pp)))))
    \<and> length (failures w pp 0 (modelsToTry L (pp_model pp))) = length (modelsToTry L (pp_model pp))
    \<and> (\<forall>i<length (modelsToTry L (pp_model pp)).
          \<exists>msg. attempt w pp i (modelsToTry L (pp_model pp) ! i) = Rejected msg
                \<and> failures w pp 0 (modelsToTry L (pp_model pp)) ! i
                    = modelsToTry L (pp_model pp) ! i @ '': '' @ msg)
    \<and> filter is_persist_response (snd (handleAsk Gemini L w args)) = []
    \<and> filter is_spawn (snd (handleAsk Gemini L w args))
        = map (spawn_of Gemini False) (modelsToTry L (pp_model pp))"
proof -
  let ?chain = "modelsToTry L (pp_model pp)"
  from fail have fail0: "\<forall>i<length ?chain. \<exists>msg. attempt w pp (0 + i) (?chain ! i) = Rejected msg"
    by simp
  from prepare_Inr [OF prep] have clean: "filter is_spawn (pp_trace pp) = []"
    "filter is_persist_response (pp_trace pp) = []"
    by simp_all
  have run: "handleAsk Gemini L w args = fallback_loop w pp 0 ?chain [] (pp_trace pp)"
    using sync prep by (simp add: handleAsk_def sync_gemini_def)
  have nth: "\<forall>i<length ?chain. \<exists>msg. attempt w pp i (?chain ! i) = Rejected msg
                \<and> failures w pp 0 ?chain ! i = ?chain ! i @ '': '' @ msg"
    using failures_nth [OF fail0] by simp
  from loop_all_fail [OF fail0, of "[]" "pp_trace pp"] loop_spawns [of w pp 0 ?chain "[]" "pp_trace pp"]
    clean nth
  show ?thesis unfolding run by (simp add: error_result_def)
qed

theorem all_models_fail_witness:
  "fst (handleAsk Gemini GEMINI_MODEL_FALLBACKS world0 args0)
     = Some (error_result (paramLines prepared0 @ SEP @ ''Gemini CLI error: all models failed.'' @ NL
          @ join NL [''gemini-2.5-pro: Gemini exited with code 1: No output'',
                     ''gemini-2.5-flash: Gemini exited with code 1: No output'']))
   \<and> filter is_persist_response (snd (handleAsk Gemini GEMINI_MODEL_FALLBACKS world0 args0)) = []"
proof -
  have sync: "\<not> arg_background args0" by (simp add: args0_def)
  have m: "pp_model prepared0 = ''gemini-2.5-pro''" by (simp add: prepared0_def)
  have fail: "\<forall>i<length (modelsToTry GEMINI_MODEL_FALLBACKS (pp_model prepared0)).
          \<exists>msg. attempt world0 prepared0 i (modelsToTry GEMINI_MODEL_FALLBACKS (pp_model prepared0) ! i) = Rejected msg"
    by (simp add: attempt0)
  have f: "failures world0 prepared0 0 (modelsToTry GEMINI_MODEL_FALLBACKS (pp_model prepared0))
           = [''gemini-2.5-pro: Gemini exited with code 1: No output'',
              ''gemini-2.5-flash: Gemini exited with code 1: No output'']"
    by (simp add: m chain0 attempt0)
  from all_models_fail [OF sync prepare0 fail] f show ?thesis by simp
qed

text \<open>
  C7. A request whose role is missing or not one of the provider's roles returns the
  error result naming the role and the valid roles, with no effect at all: no process
  spawned, no CLI detection, no context file read, no prompt persisted.
\<close>

theorem invalid_role_rejected:
  assumes "\<not> role_ok p (arg_agent_role args)"
  shows "handleAsk p L w args
           = (Some (error_result (''Invalid agent_role: \"'' @ show_role (arg_agent_role args) @ ''\". ''
                      @ provider_name p @ '' requires one of: '' @ join '', '' (VALID_ROLES p))), [])
    \<and> (p = Codex \<longrightarrow> snd (handleAskCodex w args) = [] \<and> map_option isError (fst (handleAskCodex w args)) = Some True)
    \<and> (p = Gemini \<longrightarrow> snd (handleAskGemini w args) = [] \<and> map_option isError (fst (handleAskGemini w args)) = Some True)
    \<and> role_ok p role = (\<exists>r. role = Some r \<and> r \<in> set (VALID_ROLES p))"
proof -
  have "role_ok p role = (\<exists>r. role = Some r \<and> r \<in> set (VALID_ROLES p))"
    by (cases role; cases p) (auto simp: role_ok_def VALID_ROLES_def)
  with prepare_invalid [OF assms, of w] assms show ?thesis
    by (auto simp: handleAsk_def handleAskCodex_def handleAskGemini_def error_result_def prepare_invalid)
qed

theorem invalid_role_rejected_witness:
  "\<not> role_ok Codex (Some ''designer'') \<and> \<not> role_ok Gemini None
   \<and> handleAskCodex world0 args0
       = (Some \<lparr>res_text = ''Invalid agent_role: \"designer\". Codex requires one of: architect, planner, critic, analyst, code-reviewer, security-reviewer, tdd-guide'',
                isError = True\<rparr>, [])
   \<and> snd (handleAskGemini world0 (args0\<lparr>arg_agent_role := None, arg_background := True\<rparr>)) = []"
proof -
  have a: "\<not> role_ok Codex (arg_agent_role args0)"
    by (simp add: role_ok_def args0_def VALID_ROLES_def)
  have b: "\<not> role_ok Gemini (arg_agent_role (args0\<lparr>arg_agent_role := None, arg_background := True\<rparr>))"
    by (simp add: role_ok_def)
  have c: "arg_agent_role args0 = Some ''designer''" by (simp add: args0_def)
  from invalid_role_rejected [OF a, where w = world0 and L = "[]"]
    invalid_role_rejected [OF b, where w = world0 and L = GEMINI_MODEL_FALLBACKS] a b c
  show ?thesis
    by (simp add: handleAskCodex_def error_result_def show_role_def provider_name_def VALID_ROLES_def)
qed

text \<open>
  C8, as the code has it. A background request that passes the checks of the handler
  and whose prompt has been persisted spawns exactly one child, detached, for the first
  model of the chain (which is the requested model); a background request that does
  not get that far spawns none. The handlers of a background job spawn nothing, whatever
  the events: a job has one spawn, failed or not.
\<close>

theorem background_first_model_only:
  assumes bg: "arg_background args"
  shows "(prepare p w args = Inr pp \<and> pp_promptResult pp = Some r \<longrightarrow>
            filter is_spawn (snd (handleAsk p L w args)) = [spawn_of p True (background_model p L (pp_model pp))])
    \<and> ((\<forall>q. prepare p w args = Inr q \<longrightarrow> pp_promptResult q = None) \<longrightarrow>
            filter is_spawn (snd (handleAsk p L w args)) = [])
    \<and> length (filter is_spawn (snd (handleAsk p L w args))) \<le> 1
    \<and> background_model Gemini L m = hd (modelsToTry L m)
    \<and> modelsToTry L m \<noteq> []
    \<and> hd (modelsToTry L m) = m
    \<and> background_model Codex L m = m
    \<and> filter is_spawn (trace (background_on p e parse w32 model jobMeta initial s tev)) = filter is_spawn (trace s)
    \<and> filter is_spawn (trace (snd (executeBackground p e parse w32 sp t fullPrompt model jobMeta tevents)))
        = [spawn_of p True model]"
proof -
  have one: "filter is_spawn (snd (handleAsk p L w args)) = [spawn_of p True (background_model p L (pp_model pp))]"
    if "prepare p w args = Inr pp" "pp_promptResult pp = Some r"
    using that bg prepare_Inr [OF that(1)] by (simp add: handleAsk_def dispatch_spawns)
  have le: "length (filter is_spawn (snd (handleAsk p L w args))) \<le> 1"
  proof (cases "prepare p w args")
    case (Inl a)
    then obtain res tr where "prepare p w args = Inl (res, tr)" by (cases a) simp
    with prepare_Inl [OF this] show ?thesis by (simp add: handleAsk_def)
  next
    case (Inr pq)
    with bg prepare_Inr [OF Inr] show ?thesis
      by (simp add: handleAsk_def dispatch_spawns split: option.splits)
  qed
  have none: "filter is_spawn (snd (handleAsk p L w args)) = []"
    if "\<forall>q. prepare p w args = Inr q \<longrightarrow> pp_promptResult q = None"
  proof (cases "prepare p w args")
    case (Inl a)
    then obtain res tr where "prepare p w args = Inl (res, tr)" by (cases a) simp
    with prepare_Inl [OF this] show ?thesis by (simp add: handleAsk_def)
  next
    case (Inr pq)
    with that have "pp_promptResult pq = None" by simp
    with Inr bg prepare_Inr [OF Inr] show ?thesis
      by (simp add: handleAsk_def dispatch_spawns)
  qed
  from one le none show ?thesis
    by (simp add: background_model_def modelsToTry_not_Nil hd_modelsToTry background_on_spawn
          executeBackground_spawn)
qed

lemma prepare_background: "prepare p w (args\<lparr>arg_background := b\<rparr>) = prepare p w args"
  by (simp add: prepare_def Let_def)

theorem background_first_model_only_witness:
  "filter is_spawn (snd (handleAskGemini world0 (args0\<lparr>arg_background := True\<rparr>)))
     = [SpawnChild ''gemini'' [''--yolo'', ''--model'', ''gemini-2.5-pro''] True]
   \<and> modelsToTry GEMINI_MODEL_FALLBACKS ''gemini-2.5-pro'' = [''gemini-2.5-pro'', ''gemini-2.5-flash'']"
proof -
  have bg: "arg_background (args0\<lparr>arg_background := True\<rparr>)" by simp
  have prep: "prepare Gemini world0 (args0\<lparr>arg_background := True\<rparr>) = Inr prepared0"
    by (simp add: prepare_background prepare0)
  have r: "pp_promptResult prepared0 = Some \<lparr>pres_id = ''job-1'', pres_slug = ''review'', pres_filePath = ''prompt.md''\<rparr>"
    "pp_model prepared0 = ''gemini-2.5-pro''"
    by (simp_all add: prepared0_def)
  from background_first_model_only [OF bg, where p = Gemini and w = world0 and pp = prepared0
      and L = GEMINI_MODEL_FALLBACKS and m = "''gemini-2.5-pro''"
      and r = "\<lparr>pres_id = ''job-1'', pres_slug = ''review'', pres_filePath = ''prompt.md''\<rparr>",
      THEN conjunct1] prep r chain0
  show ?thesis
    by (simp add: handleAskGemini_def spawn_of_def provider_tag_def spawn_args_def gemini_args_def
          background_model_def)
qed

text \<open>
  C8 as stated fails: a background request with a valid role whose prompt cannot be
  persisted returns an error and spawns no process.
\<close>

theorem background_spawn_counterexample:
  "arg_background (args0\<lparr>arg_background := True\<rparr>)
   \<and> handleAskGemini (world0\<lparr>persistPrompt := (\<lambda>r. None)\<rparr>) (args0\<lparr>arg_background := True\<rparr>)
       = (Some \<lparr>res_text = ''Failed to persist prompt for background execution'', isError = True\<rparr>,
          [DetectCli Gemini, ResolveSystemPrompt ''designer'',
           PersistPrompt \<lparr>pr_provider = Gemini, pr_agentRole = ''designer'', pr_model = ''gemini-2.5-pro'',
                          pr_files = None, pr_prompt = ''hi'', pr_fullPrompt = ''hi''\<rparr>])
   \<and> filter is_spawn (snd (handleAskGemini (world0\<lparr>persistPrompt := (\<lambda>r. None)\<rparr>)
         (args0\<lparr>arg_background := True\<rparr>))) = []"
  by (simp add: handleAskGemini_def handleAsk_def prepare_def Let_def world0_def args0_def role_ok_def
        VALID_ROLES_def show_role_def non_empty_def files_of_def dispatch_background_def error_result_def)

end
